theory Spec2Isabelle
  imports Complex_Main "HOL-Library.Word"
begin

unbundle bit_operations_syntax

section \<open>Open3D lidar visualisation for CARLA: the per-frame pipeline\<close>

text \<open>
  A shallow embedding of \<^verbatim>\<open>code/CARLA Scripts/open3d_lidar.py\<close>: the two sensor
  callbacks \<^verbatim>\<open>lidar_callback\<close> and \<^verbatim>\<open>semantic_lidar_callback\<close>, the actor colour
  assignment of \<^verbatim>\<open>main\<close>, and the body of its frame loop.
\<close>

subsection \<open>Floating-point values\<close>

text \<open>
  A NumPy float is modelled by the value it denotes: a real number, one of the two
  infinities, or not-a-number. Rounding is not modelled, and the two zeros are one value.
  The operations follow IEEE 754 on the non-finite values, which is where the callbacks
  depend on them.
\<close>

datatype np_float = Finite real | PInf | NInf | NaN

type_synonym vec3 = "np_float \<times> np_float \<times> np_float"

fun np_neg :: "np_float \<Rightarrow> np_float" where
  "np_neg (Finite a) = Finite (- a)"
| "np_neg PInf = NInf"
| "np_neg NInf = PInf"
| "np_neg NaN = NaN"

fun np_sub :: "np_float \<Rightarrow> np_float \<Rightarrow> np_float" where
  "np_sub NaN _ = NaN"
| "np_sub _ NaN = NaN"
| "np_sub (Finite a) (Finite b) = Finite (a - b)"
| "np_sub (Finite a) PInf = NInf"
| "np_sub (Finite a) NInf = PInf"
| "np_sub PInf (Finite b) = PInf"
| "np_sub PInf PInf = NaN"
| "np_sub PInf NInf = PInf"
| "np_sub NInf (Finite b) = NInf"
| "np_sub NInf PInf = NInf"
| "np_sub NInf NInf = NaN"

text \<open>A divisor of value zero is read as \<^verbatim>\<open>+0.0\<close>.\<close>

fun np_div :: "np_float \<Rightarrow> np_float \<Rightarrow> np_float" where
  "np_div NaN _ = NaN"
| "np_div _ NaN = NaN"
| "np_div (Finite a) (Finite b) =
     (if b = 0 then (if a = 0 then NaN else if 0 < a then PInf else NInf)
      else Finite (a / b))"
| "np_div (Finite a) PInf = Finite 0"
| "np_div (Finite a) NInf = Finite 0"
| "np_div PInf (Finite b) = (if b < 0 then NInf else PInf)"
| "np_div NInf (Finite b) = (if b < 0 then PInf else NInf)"
| "np_div PInf PInf = NaN"
| "np_div PInf NInf = NaN"
| "np_div NInf PInf = NaN"
| "np_div NInf NInf = NaN"

text \<open>
  \<^verbatim>\<open>np.log\<close>: minus infinity at zero and not-a-number below it (NumPy warns and goes on).
\<close>

fun np_log :: "np_float \<Rightarrow> np_float" where
  "np_log (Finite a) = (if 0 < a then Finite (ln a) else if a = 0 then NInf else NaN)"
| "np_log PInf = PInf"
| "np_log NInf = NaN"
| "np_log NaN = NaN"

fun np_exp :: "np_float \<Rightarrow> np_float" where
  "np_exp (Finite a) = Finite (exp a)"
| "np_exp PInf = PInf"
| "np_exp NInf = Finite 0"
| "np_exp NaN = NaN"

text \<open>The comparison \<^verbatim>\<open>==\<close> of floats: not-a-number equals nothing.\<close>

definition np_eq :: "np_float \<Rightarrow> np_float \<Rightarrow> bool" where
  "np_eq a b = (a \<noteq> NaN \<and> b \<noteq> NaN \<and> a = b)"

subsection \<open>Bytes and 32-bit fields\<close>

type_synonym byte = "8 word"

text \<open>The bit pattern of a \<^verbatim>\<open>float32\<close>, and of a \<^verbatim>\<open>uint32\<close>.\<close>

type_synonym f32 = "32 word"

text \<open>Four bytes, little-endian, as one 32-bit field; and back.\<close>

fun f32_of_bytes :: "byte list \<Rightarrow> f32" where
  "f32_of_bytes [] = 0"
| "f32_of_bytes (b # bs) = ucast b OR push_bit 8 (f32_of_bytes bs)"

definition bytes_of_f32 :: "f32 \<Rightarrow> byte list" where
  "bytes_of_f32 w =
     [ucast w, ucast (drop_bit 8 w), ucast (drop_bit 16 w), ucast (drop_bit 24 w)]"

text \<open>
  The value of a \<^verbatim>\<open>float32\<close> bit pattern: sign bit 31, exponent bits 30 to 23, fraction
  bits 22 to 0. The conversion to \<^verbatim>\<open>float64\<close> that \<^verbatim>\<open>Vector3dVector\<close> and \<^verbatim>\<open>np.interp\<close>
  make keeps that value.
\<close>

definition f32_val :: "f32 \<Rightarrow> np_float" where
  "f32_val w =
     (let sign = (if bit w 31 then - 1 else 1 :: real);
          e = unat (take_bit 8 (drop_bit 23 w));
          m = unat (take_bit 23 w)
      in if e = 255 then (if m = 0 then (if bit w 31 then NInf else PInf) else NaN)
         else if e = 0 then Finite (sign * real m / 2 ^ 149)
         else Finite (sign * real (2 ^ 23 + m) * 2 ^ e / 2 ^ 150))"

text \<open>Unary minus on a \<^verbatim>\<open>float32\<close> flips the sign bit.\<close>

definition f32_neg :: "f32 \<Rightarrow> f32" where
  "f32_neg w = w XOR 0x80000000"

text \<open>
  Element \<^verbatim>\<open>k\<close> of a buffer seen as an array of 4-byte items: reading it, and writing it
  in place.
\<close>

definition load_f4 :: "byte list \<Rightarrow> nat \<Rightarrow> f32" where
  "load_f4 mem k = f32_of_bytes (take 4 (drop (4 * k) mem))"

definition store_f4 :: "byte list \<Rightarrow> nat \<Rightarrow> f32 \<Rightarrow> byte list" where
  "store_f4 mem k w = take (4 * k) mem @ bytes_of_f32 w @ drop (4 * k + 4) mem"

subsection \<open>The state the callbacks work on\<close>

datatype py_error = ValueError | IndexError

text \<open>
  \<^verbatim>\<open>o3d.geometry.PointCloud\<close>: positions and colours, both \<^verbatim>\<open>Vector3dVector\<close> of doubles.
\<close>

record PointCloud =
  points :: "vec3 list"
  colors :: "vec3 list"

text \<open>
  The objects a callback can reach. \<^verbatim>\<open>memory\<close> maps the address of a buffer object to its
  bytes: the sensor payload \<^verbatim>\<open>point_cloud.raw_data\<close> lives there, and so does the data of
  every NumPy array that the callback shares between views or writes in place. Addresses
  from \<^verbatim>\<open>free_addr\<close> on are unused. \<^verbatim>\<open>point_list\<close> is the point cloud shared with the
  frame loop, \<^verbatim>\<open>actor_colors\<close> the dictionary built by \<^verbatim>\<open>main\<close>, keyed by actor id.
\<close>

record pipeline =
  memory :: "nat \<Rightarrow> byte list"
  free_addr :: nat
  point_list :: PointCloud
  actor_colors :: "int \<rightharpoonup> vec3"

text \<open>
  \<^verbatim>\<open>np.frombuffer(buf, dtype)\<close> for a dtype of the given item size: a view of the buffer,
  sharing its bytes; the result is the number of items. A buffer whose size is not a
  multiple of the item size raises \<^verbatim>\<open>ValueError\<close>.
\<close>

definition np_frombuffer :: "nat \<Rightarrow> byte list \<Rightarrow> py_error + nat" where
  "np_frombuffer itemsize buf =
     (if length buf mod itemsize \<noteq> 0 then Inl ValueError
      else Inr (length buf div itemsize))"

text \<open>
  \<^verbatim>\<open>np.copy\<close> of the array at address \<^verbatim>\<open>a\<close>: a new array with its own bytes, at a fresh
  address, which is returned with the new state.
\<close>

definition np_copy :: "pipeline \<Rightarrow> nat \<Rightarrow> nat \<times> pipeline" where
  "np_copy s a =
     (free_addr s,
      s\<lparr>memory := (memory s)(free_addr s := memory s a), free_addr := free_addr s + 1\<rparr>)"

text \<open>
  \<^verbatim>\<open>Vector3dVector(points)\<close> on rows of \<^verbatim>\<open>float32\<close>: the same values as doubles.
\<close>

definition Vector3dVector :: "(f32 \<times> f32 \<times> f32) list \<Rightarrow> vec3 list" where
  "Vector3dVector rows = map (\<lambda>(a, b, c). (f32_val a, f32_val b, f32_val c)) rows"

subsection \<open>The class palette\<close>

text \<open>
  \<^verbatim>\<open>LABEL_COLORS\<close>: 29 rows of 8-bit channels divided by 255, after which the rows
  0, 1, 2, 10, 11, 24, 26 and 27 are overwritten with \<^verbatim>\<open>[0.0, 0.0, 0.0]\<close>.
\<close>

definition LABEL_COLORS :: "vec3 list" where
  "LABEL_COLORS =
     (map (\<lambda>(r, g, b). (Finite (r / 255), Finite (g / 255), Finite (b / 255)))
       [(255, 255, 255),
        (128, 64, 128),
        (244, 35, 232),
        (70, 70, 70),
        (102, 102, 156),
        (100, 40, 40),
        (153, 153, 153),
        (250, 170, 30),
        (220, 220, 0),
        (107, 142, 35),
        (145, 170, 100),
        (70, 130, 180),
        (220, 20, 60),
        (255, 0, 0),
        (0, 0, 142),
        (0, 60, 100),
        (0, 80, 100),
        (0, 0, 230),
        (119, 11, 32),
        (81, 0, 81),
        (110, 190, 160),
        (170, 120, 50),
        (55, 90, 80),
        (45, 60, 150),
        (157, 234, 50),
        (81, 0, 81),
        (150, 100, 100),
        (230, 150, 140),
        (180, 165, 180)])
     [0 := (Finite 0, Finite 0, Finite 0),
      1 := (Finite 0, Finite 0, Finite 0),
      2 := (Finite 0, Finite 0, Finite 0),
      10 := (Finite 0, Finite 0, Finite 0),
      11 := (Finite 0, Finite 0, Finite 0),
      24 := (Finite 0, Finite 0, Finite 0),
      26 := (Finite 0, Finite 0, Finite 0),
      27 := (Finite 0, Finite 0, Finite 0)]"

subsection \<open>\<^verbatim>\<open>semantic_lidar_callback\<close>\<close>

text \<open>
  One item of the structured dtype, 24 bytes: \<^verbatim>\<open>x\<close>, \<^verbatim>\<open>y\<close>, \<^verbatim>\<open>z\<close>, \<^verbatim>\<open>CosAngle\<close>
  (\<^verbatim>\<open>float32\<close>), \<^verbatim>\<open>ObjIdx\<close>, \<^verbatim>\<open>ObjTag\<close> (\<^verbatim>\<open>uint32\<close>). The first three fields are
  named \<^verbatim>\<open>fld_x\<close>, \<^verbatim>\<open>fld_y\<close>, \<^verbatim>\<open>fld_z\<close> here.
\<close>

record semantic_sample =
  fld_x :: f32
  fld_y :: f32
  fld_z :: f32
  CosAngle :: f32
  ObjIdx :: "32 word"
  ObjTag :: "32 word"

definition semantic_at :: "byte list \<Rightarrow> nat \<Rightarrow> semantic_sample" where
  "semantic_at buf i =
     \<lparr>fld_x = load_f4 buf (6 * i),
      fld_y = load_f4 buf (6 * i + 1),
      fld_z = load_f4 buf (6 * i + 2),
      CosAngle = load_f4 buf (6 * i + 3),
      ObjIdx = load_f4 buf (6 * i + 4),
      ObjTag = load_f4 buf (6 * i + 5)\<rparr>"

text \<open>
  \<^verbatim>\<open>table[idx]\<close> with an array of \<^verbatim>\<open>uint32\<close> indices: a new array, or \<^verbatim>\<open>IndexError\<close> when
  an index is out of bounds. An unsigned index is never negative, so none counts from
  the end.
\<close>

definition fancy_index :: "'a list \<Rightarrow> 32 word list \<Rightarrow> py_error + 'a list" where
  "fancy_index table idx =
     (if list_ex (\<lambda>i. length table \<le> unat i) idx then Inl IndexError
      else Inr (map (\<lambda>i. table ! unat i) idx))"

text \<open>\<^verbatim>\<open>np.unique\<close>: the distinct values, in increasing order.\<close>

definition np_unique :: "32 word list \<Rightarrow> 32 word list" where
  "np_unique xs = sort (remdups xs)"

text \<open>\<^verbatim>\<open>rows[mask] = c\<close> for a boolean mask: the masked rows become \<^verbatim>\<open>c\<close>.\<close>

definition masked_assign :: "bool list \<Rightarrow> 'a \<Rightarrow> 'a list \<Rightarrow> 'a list" where
  "masked_assign bmask c rows = map (\<lambda>(m, r). if m then c else r) (zip bmask rows)"

text \<open>\<^verbatim>\<open>rows[mask]\<close> for a boolean mask: the masked rows, in their order.\<close>

definition bool_index :: "'a list \<Rightarrow> bool list \<Rightarrow> 'a list" where
  "bool_index rows bmask = map fst (filter snd (zip rows bmask))"

text \<open>
  The body of the loop over the actor ids:
  \<^verbatim>\<open>
  if actor_id in actor_colors:
      int_color[data['ObjIdx'] == actor_id] = actor_colors[actor_id]
  \<close>
  The keys of the dictionary are Python integers; a \<^verbatim>\<open>uint32\<close> finds the key of its value.
\<close>

definition actor_override ::
    "(int \<rightharpoonup> vec3) \<Rightarrow> 32 word list \<Rightarrow> 32 word \<Rightarrow> vec3 list \<Rightarrow> vec3 list" where
  "actor_override ac ids actor_id int_color =
     (case ac (uint actor_id) of
        None \<Rightarrow> int_color
      | Some c \<Rightarrow> masked_assign (map (\<lambda>i. i = actor_id) ids) c int_color)"

text \<open>\<^verbatim>\<open>~np.all(int_color == [0.0, 0.0, 0.0], axis=1)\<close>, for one row.\<close>

definition not_black :: "vec3 \<Rightarrow> bool" where
  "not_black c =
     (case c of (r, g, b) \<Rightarrow>
        \<not> (np_eq r (Finite 0) \<and> np_eq g (Finite 0) \<and> np_eq b (Finite 0)))"

text \<open>
  The callback, on the payload at address \<^verbatim>\<open>raw\<close>. The result is the state it leaves and
  the exception it raises, if any. The mask of the source is \<^verbatim>\<open>bmask\<close> here.
\<close>

definition semantic_lidar_callback :: "pipeline \<Rightarrow> nat \<Rightarrow> pipeline \<times> py_error option" where
  "semantic_lidar_callback s raw =
     (case np_frombuffer 24 (memory s raw) of
        Inl e \<Rightarrow> (s, Some e)
      | Inr n \<Rightarrow>
          let data = map (semantic_at (memory s raw)) [0..<n];
              points = map (\<lambda>d. (fld_x d, f32_neg (fld_y d), fld_z d)) data;
              labels = map ObjTag data
          in case fancy_index LABEL_COLORS labels of
               Inl e \<Rightarrow> (s, Some e)
             | Inr int_color0 \<Rightarrow>
                 let unique_actor_ids = np_unique (map ObjIdx data);
                     int_color = fold (actor_override (actor_colors s) (map ObjIdx data))
                                   unique_actor_ids int_color0;
                     bmask = map not_black int_color;
                     points' = bool_index points bmask;
                     int_color' = bool_index int_color bmask
                 in (s\<lparr>point_list := (point_list s)
                        \<lparr>points := Vector3dVector points', colors := int_color'\<rparr>\<rparr>,
                     None))"

text \<open>The items of \<^verbatim>\<open>np.frombuffer(buf, dtype)\<close> for the structured dtype, in buffer order.\<close>

definition semantic_data :: "byte list \<Rightarrow> semantic_sample list" where
  "semantic_data buf = map (semantic_at buf) [0..<length buf div 24]"

text \<open>
  Following the specification, not the source: the final resolved colour of a point is
  the colour of its instance id in the actor colour table if the id is there, and the
  palette colour of its class tag otherwise.
\<close>

definition resolved_color :: "(int \<rightharpoonup> vec3) \<Rightarrow> semantic_sample \<Rightarrow> vec3" where
  "resolved_color ac d =
     (case ac (uint (ObjIdx d)) of
        None \<Rightarrow> LABEL_COLORS ! unat (ObjTag d)
      | Some c \<Rightarrow> c)"

subsection \<open>The actor colours of \<^verbatim>\<open>main\<close>\<close>

text \<open>
  \<^verbatim>\<open>
  for actor in actors:
      actor_id = actor.id
      if actor_id not in actor_colors:
          actor_colors[actor_id] = np.random.random(3)
  \<close>
  Each actor comes with the colour that \<^verbatim>\<open>np.random.random(3)\<close> draws for it.
\<close>

fun assign_actor_colors :: "(int \<times> vec3) list \<Rightarrow> (int \<rightharpoonup> vec3) \<Rightarrow> (int \<rightharpoonup> vec3)" where
  "assign_actor_colors [] ac = ac"
| "assign_actor_colors ((actor_id, rnd) # actors) ac =
     assign_actor_colors actors
       (case ac actor_id of None \<Rightarrow> ac(actor_id \<mapsto> rnd) | Some c \<Rightarrow> ac)"

subsection \<open>\<^verbatim>\<open>lidar_callback\<close>\<close>

text \<open>
  \<^verbatim>\<open>VIRIDIS = np.array(cm.get_cmap('plasma').colors)\<close> is a table of Matplotlib; it is a
  parameter here, a list of rows of three channels.
  \<^verbatim>\<open>VID_RANGE = np.linspace(0.0, 1.0, VIRIDIS.shape[0])\<close>.
\<close>

definition VID_RANGE :: "(real \<times> real \<times> real) list \<Rightarrow> real list" where
  "VID_RANGE VIRIDIS =
     map (\<lambda>i. real i / real (length VIRIDIS - 1)) [0..<length VIRIDIS]"

text \<open>
  \<^verbatim>\<open>np.interp\<close> at one point, for increasing sample points \<^verbatim>\<open>xp\<close>: not-a-number stays,
  a point left of the first sample gets the first value and a point right of the last
  sample the last value; between two samples the value is interpolated linearly. The
  index \<^verbatim>\<open>j\<close> is the one the binary search of NumPy finds: the last sample not above the
  point. A table of a single sample gives its value at every point.
\<close>

definition interp1 :: "real list \<Rightarrow> real list \<Rightarrow> np_float \<Rightarrow> np_float" where
  "interp1 xp fp x =
     (if length xp = 1 then Finite (hd fp)
      else case x of
        NaN \<Rightarrow> NaN
      | PInf \<Rightarrow> Finite (last fp)
      | NInf \<Rightarrow> Finite (hd fp)
      | Finite v \<Rightarrow>
          if last xp < v then Finite (last fp)
          else if v < hd xp then Finite (hd fp)
          else
            let j = length (takeWhile (\<lambda>a. a \<le> v) xp) - 1
            in if j = length xp - 1 then Finite (fp ! j)
               else if xp ! j = v then Finite (fp ! j)
               else Finite ((fp ! (j + 1) - fp ! j) / (xp ! (j + 1) - xp ! j)
                              * (v - xp ! j) + fp ! j))"

definition np_interp :: "np_float list \<Rightarrow> real list \<Rightarrow> real list \<Rightarrow> py_error + np_float list" where
  "np_interp xs xp fp =
     (if xp = [] then Inl ValueError
      else if length fp \<noteq> length xp then Inl ValueError
      else Inr (map (interp1 xp fp) xs))"

text \<open>\<^verbatim>\<open>1.0 - np.log(intensity) / np.log(np.exp(-0.004 * 100))\<close>, for one sample.\<close>

definition intensity_col :: "f32 \<Rightarrow> np_float" where
  "intensity_col intensity =
     np_sub (Finite 1)
       (np_div (np_log (f32_val intensity)) (np_log (np_exp (Finite (- 0.004 * 100)))))"

text \<open>
  \<^verbatim>\<open>points[:, :1] = -points[:, :1]\<close> on the bytes of \<^verbatim>\<open>data\<close>, of which \<^verbatim>\<open>points\<close> is a
  view: the right-hand side is computed first, then written to the first item of each
  row of four.
\<close>

definition negate_first_column :: "byte list \<Rightarrow> nat \<Rightarrow> byte list" where
  "negate_first_column mem rows =
     (let rhs = map (\<lambda>i. f32_neg (load_f4 mem (4 * i))) [0..<rows]
      in fold (\<lambda>i m. store_f4 m (4 * i) (rhs ! i)) [0..<rows] mem)"

text \<open>
  The callback, on the payload at address \<^verbatim>\<open>raw\<close>. \<^verbatim>\<open>np.reshape\<close> raises \<^verbatim>\<open>ValueError\<close>
  when \<^verbatim>\<open>int(n / 4)\<close> rows of four do not make up the \<^verbatim>\<open>n\<close> items; \<^verbatim>\<open>int(n / 4)\<close> is
  \<^verbatim>\<open>n div 4\<close> for every count below \<^verbatim>\<open>2 ** 53\<close>.
\<close>

definition lidar_callback ::
    "(real \<times> real \<times> real) list \<Rightarrow> pipeline \<Rightarrow> nat \<Rightarrow> pipeline \<times> py_error option" where
  "lidar_callback VIRIDIS s raw =
     (case np_frombuffer 4 (memory s raw) of
        Inl e \<Rightarrow> (s, Some e)
      | Inr n \<Rightarrow>
          (case np_copy s raw of
             (data, s1) \<Rightarrow>
               let rows = n div 4
               in if rows * 4 \<noteq> n then (s1, Some ValueError)
                  else
                    let intensity = map (\<lambda>i. load_f4 (memory s1 data) (4 * i + 3)) [0..<rows];
                        t = map intensity_col intensity
                    in case np_interp t (VID_RANGE VIRIDIS) (map fst VIRIDIS) of
                         Inl e \<Rightarrow> (s1, Some e)
                       | Inr c0 \<Rightarrow>
                     (case np_interp t (VID_RANGE VIRIDIS) (map (fst \<circ> snd) VIRIDIS) of
                         Inl e \<Rightarrow> (s1, Some e)
                       | Inr c1 \<Rightarrow>
                     (case np_interp t (VID_RANGE VIRIDIS) (map (snd \<circ> snd) VIRIDIS) of
                         Inl e \<Rightarrow> (s1, Some e)
                       | Inr c2 \<Rightarrow>
                           let int_color = zip c0 (zip c1 c2);
                               s2 = s1\<lparr>memory := (memory s1)
                                      (data := negate_first_column (memory s1 data) rows)\<rparr>;
                               points = map (\<lambda>i. (load_f4 (memory s2 data) (4 * i),
                                                   load_f4 (memory s2 data) (4 * i + 1),
                                                   load_f4 (memory s2 data) (4 * i + 2)))
                                          [0..<rows]
                           in (s2\<lparr>point_list := (point_list s2)
                                  \<lparr>points := Vector3dVector points, colors := int_color\<rparr>\<rparr>,
                               None)))))"

text \<open>A colour channel that is a number between 0 and 1.\<close>

definition unit_interval :: "np_float \<Rightarrow> bool" where
  "unit_interval c = (case c of Finite a \<Rightarrow> 0 \<le> a \<and> a \<le> 1 | _ \<Rightarrow> False)"

subsection \<open>The frame loop of \<^verbatim>\<open>main\<close>\<close>

text \<open>
  The calls the loop makes on its collaborators (the Open3D visualiser, the point cloud
  writer, the simulator) are recorded as a trace of events, oldest first.
\<close>

datatype event =
    add_geometry
  | update_geometry
  | write_point_cloud nat
  | poll_events
  | update_renderer
  | tick

text \<open>
  \<^verbatim>\<open>POINT_DIFF_THRESHOLD = 100\<close>
\<close>

definition POINT_DIFF_THRESHOLD :: int where
  "POINT_DIFF_THRESHOLD = 100"

text \<open>
  The variables of \<^verbatim>\<open>main\<close> that the loop reads and writes: \<^verbatim>\<open>frame\<close> (starts at 0),
  \<^verbatim>\<open>previous_num_points\<close> (starts as \<^verbatim>\<open>None\<close>), and the trace.
\<close>

record loop_state =
  frame :: nat
  previous_num_points :: "int option"
  trace :: "event list"

definition loop_init :: loop_state where
  "loop_init = \<lparr>frame = 0, previous_num_points = None, trace = []\<rparr>"

text \<open>
  \<^verbatim>\<open>
  if frame == 2:
      vis.add_geometry(point_list)
  vis.update_geometry(point_list)
  \<close>
\<close>

definition render_events :: "nat \<Rightarrow> event list" where
  "render_events fr = (if fr = 2 then [add_geometry] else []) @ [update_geometry]"

text \<open>
  \<^verbatim>\<open>
  if arg.record:
      current_num_points = len(point_list.points)
      if previous_num_points is None or
         abs(current_num_points - previous_num_points) > POINT_DIFF_THRESHOLD:
          o3d.io.write_point_cloud(ply_file_name, point_list)
          previous_num_points = current_num_points
  \<close>
  The first argument is \<^verbatim>\<open>arg.record\<close>, the second \<^verbatim>\<open>len(point_list.points)\<close> at the
  time the loop reads it. The result is whether a snapshot is written.
\<close>

definition should_record :: "bool \<Rightarrow> int \<Rightarrow> int option \<Rightarrow> bool" where
  "should_record arg_record current_num_points prev =
     (arg_record \<and>
      (case prev of
         None \<Rightarrow> True
       | Some p \<Rightarrow> \<bar>current_num_points - p\<bar> > POINT_DIFF_THRESHOLD))"

text \<open>
  One iteration of \<^verbatim>\<open>while True\<close>. The point count is an input of the iteration: the
  sensor callback replaces the contents of \<^verbatim>\<open>point_list\<close> between iterations.
\<close>

definition loop_body :: "bool \<Rightarrow> nat \<Rightarrow> loop_state \<Rightarrow> loop_state" where
  "loop_body arg_record num_points s =
     (let current_num_points = int num_points;
          written = should_record arg_record current_num_points (previous_num_points s)
      in \<lparr>frame = frame s + 1,
          previous_num_points =
            (if written then Some current_num_points else previous_num_points s),
          trace = trace s @ render_events (frame s)
                  @ (if written then [write_point_cloud (frame s)] else [])
                  @ [poll_events, update_renderer, tick]\<rparr>)"

text \<open>
  The loop never ends by itself; a run is the finite prefix of it that handles the given
  point counts, one iteration for each.
\<close>

definition run_frames :: "bool \<Rightarrow> nat list \<Rightarrow> loop_state \<Rightarrow> loop_state" where
  "run_frames arg_record counts s = fold (loop_body arg_record) counts s"

text \<open>The calls of a trace that concern the registration and update of the geometry.\<close>

definition geometry_events :: "event list \<Rightarrow> event list" where
  "geometry_events es = filter (\<lambda>e. e = add_geometry \<or> e = update_geometry) es"

subsection \<open>Sample payloads\<close>

text \<open>
  A semantic payload of three items, all at position \<^verbatim>\<open>(1.0, 2.0, 3.0)\<close> with \<^verbatim>\<open>CosAngle\<close>
  0: instance 5 of class 14 (car), instance 0 of class 1 (road), instance 7 of class 3
  (building).
\<close>

definition semantic_payload :: "byte list" where
  "semantic_payload =
     [0, 0, 0x80, 0x3F,  0, 0, 0, 0x40,  0, 0, 0x40, 0x40,  0, 0, 0, 0,  5, 0, 0, 0,  14, 0, 0, 0,
      0, 0, 0x80, 0x3F,  0, 0, 0, 0x40,  0, 0, 0x40, 0x40,  0, 0, 0, 0,  0, 0, 0, 0,  1, 0, 0, 0,
      0, 0, 0x80, 0x3F,  0, 0, 0, 0x40,  0, 0, 0x40, 0x40,  0, 0, 0, 0,  7, 0, 0, 0,  3, 0, 0, 0]"

text \<open>
  A raw payload of one item: position \<^verbatim>\<open>(1.0, 2.0, 3.0)\<close> and the given bytes of the
  intensity.
\<close>

definition raw_payload :: "byte list \<Rightarrow> byte list" where
  "raw_payload intensity =
     [0, 0, 0x80, 0x3F,  0, 0, 0, 0x40,  0, 0, 0x40, 0x40] @ intensity"

text \<open>
  A state with the given payload at address 0, an empty point cloud and the given actor
  colours.
\<close>

definition pipeline_with :: "byte list \<Rightarrow> (int \<rightharpoonup> vec3) \<Rightarrow> pipeline" where
  "pipeline_with payload ac =
     \<lparr>memory = (\<lambda>a. [])(0 := payload), free_addr = 1,
      point_list = \<lparr>points = [], colors = []\<rparr>, actor_colors = ac\<rparr>"

section \<open>Properties\<close>

subsection \<open>Floats, bytes and array helpers\<close>

lemma bit_sign_const: "bit (0x80000000 :: 32 word) n = (n = 31)"
proof -
  have "bit (2 ^ 31 :: 32 word) n = (n = 31)"
    by (simp only: bit_exp_iff possible_bit_word) auto
  moreover have "(2 ^ 31 :: 32 word) = 0x80000000" by simp
  ultimately show ?thesis by (simp only:)
qed

lemma bit_f32_neg: "bit (f32_neg w) n = (if n = 31 then \<not> bit w 31 else bit w n)"
  unfolding f32_neg_def
  by (simp only: bit_xor_iff bit_sign_const) auto

lemma exponent_f32_neg: "take_bit 8 (drop_bit 23 (f32_neg w)) = take_bit 8 (drop_bit 23 w)"
  by (rule bit_eqI) (auto simp: bit_simps bit_f32_neg)

lemma fraction_f32_neg: "take_bit 23 (f32_neg w) = take_bit 23 w"
  by (rule bit_eqI) (auto simp: bit_simps bit_f32_neg)

lemma f32_val_neg: "f32_val (f32_neg w) = np_neg (f32_val w)"
  apply (simp add: f32_val_def Let_def exponent_f32_neg fraction_f32_neg bit_f32_neg)
  apply (simp add: algebra_simps)
  done

lemma np_eq_zero [simp]: "np_eq a (Finite 0) = (a = Finite 0)"
  by (auto simp: np_eq_def)

lemma not_black_iff: "not_black c = (c \<noteq> (Finite 0, Finite 0, Finite 0))"
  by (cases c) (auto simp: not_black_def)

lemma length_LABEL_COLORS: "length LABEL_COLORS = 29"
  by (simp add: LABEL_COLORS_def)

lemma fancy_index_ok:
  "list_all (\<lambda>i. unat i < length table) idx \<Longrightarrow>
   fancy_index table idx = Inr (map (\<lambda>i. table ! unat i) idx)"
  by (auto simp: fancy_index_def list_all_iff list_ex_iff)

lemma fancy_index_error:
  "list_ex (\<lambda>i. length table \<le> unat i) idx \<Longrightarrow> fancy_index table idx = Inl IndexError"
  by (simp add: fancy_index_def)

lemma bool_index_map: "bool_index (map f xs) (map p xs) = map f (filter p xs)"
  by (induction xs) (simp_all add: bool_index_def)

lemma length_actor_override:
  "length cols = length ids \<Longrightarrow> length (actor_override ac ids u cols) = length ids"
  by (simp add: actor_override_def masked_assign_def split: option.splits)

lemma nth_actor_override:
  "length cols = length ids \<Longrightarrow> k < length ids \<Longrightarrow>
   actor_override ac ids u cols ! k =
     (if ids ! k = u then (case ac (uint u) of None \<Rightarrow> cols ! k | Some c \<Rightarrow> c) else cols ! k)"
  by (simp add: actor_override_def masked_assign_def split: option.splits)

lemma fold_actor_override:
  "length cols = length ids \<Longrightarrow>
   length (fold (actor_override ac ids) us cols) = length ids \<and>
   (\<forall>k < length ids. fold (actor_override ac ids) us cols ! k =
      (if ids ! k \<in> set us then (case ac (uint (ids ! k)) of None \<Rightarrow> cols ! k | Some c \<Rightarrow> c)
       else cols ! k))"
proof (induction us arbitrary: cols)
  case Nil
  then show ?case by simp
next
  case (Cons u us)
  let ?cols = "actor_override ac ids u cols"
  have len: "length ?cols = length ids" using Cons.prems by (rule length_actor_override)
  from Cons.IH [OF len] show ?case
    by (auto simp: nth_actor_override Cons.prems split: option.splits)
qed

lemma set_np_unique [simp]: "set (np_unique xs) = set xs"
  by (simp add: np_unique_def)

lemma override_loop_resolved:
  "fold (actor_override ac (map ObjIdx data)) (np_unique (map ObjIdx data))
     (map (\<lambda>i. LABEL_COLORS ! unat i) (map ObjTag data))
   = map (\<lambda>d. case ac (uint (ObjIdx d)) of None \<Rightarrow> LABEL_COLORS ! unat (ObjTag d) | Some c \<Rightarrow> c) data"
proof (rule nth_equalityI)
  let ?ids = "map ObjIdx data" and ?cols = "map (\<lambda>i. LABEL_COLORS ! unat i) (map ObjTag data)"
  have len: "length ?cols = length ?ids" by simp
  note F = fold_actor_override [OF len, of ac "np_unique ?ids"]
  show "length (fold (actor_override ac ?ids) (np_unique ?ids) ?cols) = length (map (\<lambda>d. case ac (uint (ObjIdx d)) of None \<Rightarrow> LABEL_COLORS ! unat (ObjTag d) | Some c \<Rightarrow> c) data)"
    using F by simp
  fix k assume "k < length (fold (actor_override ac ?ids) (np_unique ?ids) ?cols)"
  then have k: "k < length data" using F by simp
  then show "fold (actor_override ac ?ids) (np_unique ?ids) ?cols ! k = map (\<lambda>d. case ac (uint (ObjIdx d)) of None \<Rightarrow> LABEL_COLORS ! unat (ObjTag d) | Some c \<Rightarrow> c) data ! k"
    using F by (simp split: option.splits)
qed

subsection \<open>Reading and writing array items in place\<close>

lemma f32_roundtrip: "f32_of_bytes (bytes_of_f32 w) = w"
proof -
  have "bit (f32_of_bytes (bytes_of_f32 w)) n = bit w n" if "n < 32" for n
  proof -
    from that consider "n < 8" | "8 \<le> n" "n < 16" | "16 \<le> n" "n < 24" | "24 \<le> n" "n < 32"
      by linarith
    then show ?thesis
      unfolding bytes_of_f32_def f32_of_bytes.simps
      by cases (auto simp: bit_simps)
  qed
  then show ?thesis
    by (intro bit_eqI) (simp add: possible_bit_def)
qed

lemma length_bytes_of_f32 [simp]: "length (bytes_of_f32 w) = 4"
  by (simp add: bytes_of_f32_def)

lemma length_store_f4: "4 * k + 4 \<le> length mem \<Longrightarrow> length (store_f4 mem k w) = length mem"
  by (simp add: store_f4_def)

lemma load_store_same: "4 * k + 4 \<le> length mem \<Longrightarrow> load_f4 (store_f4 mem k w) k = w"
  by (simp add: load_f4_def store_f4_def f32_roundtrip)

lemma load_store_other:
  assumes len: "4 * k + 4 \<le> length mem" and ne: "j \<noteq> k"
  shows "load_f4 (store_f4 mem k w) j = load_f4 mem j"
proof -
  have "take 4 (drop (4 * j) (store_f4 mem k w)) = take 4 (drop (4 * j) mem)"
  proof (rule nth_equalityI)
    show "length (take 4 (drop (4 * j) (store_f4 mem k w))) = length (take 4 (drop (4 * j) mem))"
      using len by (simp add: length_store_f4)
  next
    fix i assume "i < length (take 4 (drop (4 * j) (store_f4 mem k w)))"
    then have i: "i < 4" "4 * j + i < length mem" using len by (auto simp: length_store_f4)
    from ne consider "j < k" | "k < j" by linarith
    then have "store_f4 mem k w ! (4 * j + i) = mem ! (4 * j + i)"
    proof cases
      case 1
      then have "4 * j + i < 4 * k" using i by linarith
      then show ?thesis using len by (simp add: store_f4_def nth_append)
    next
      case 2
      then have "\<not> 4 * j + i < 4 * k" "\<not> 4 * j + i - 4 * k < 4"
        "4 * k + 4 + (4 * j + i - 4 * k - 4) = 4 * j + i" by linarith+
      then show ?thesis using len i by (simp add: store_f4_def nth_append)
    qed
    then show "take 4 (drop (4 * j) (store_f4 mem k w)) ! i = take 4 (drop (4 * j) mem) ! i"
      using i len by (simp add: length_store_f4)
  qed
  then show ?thesis by (simp add: load_f4_def)
qed

lemma fold_store_f4:
  "16 * n \<le> length mem \<Longrightarrow>
   length (fold (\<lambda>i m. store_f4 m (4 * i) (rhs ! i)) [0..<n] mem) = length mem
   \<and> (\<forall>j. load_f4 (fold (\<lambda>i m. store_f4 m (4 * i) (rhs ! i)) [0..<n] mem) j =
          (if j mod 4 = 0 \<and> j div 4 < n then rhs ! (j div 4) else load_f4 mem j))"
proof (induction n)
  case 0
  then show ?case by simp
next
  case (Suc n)
  let ?m = "fold (\<lambda>i m. store_f4 m (4 * i) (rhs ! i)) [0..<n] mem"
  from Suc have IH: "length ?m = length mem"
    "\<And>j. load_f4 ?m j = (if j mod 4 = 0 \<and> j div 4 < n then rhs ! (j div 4) else load_f4 mem j)"
    by simp_all
  have room: "4 * (4 * n) + 4 \<le> length ?m" using Suc.prems IH(1) by simp
  have step: "fold (\<lambda>i m. store_f4 m (4 * i) (rhs ! i)) [0..<Suc n] mem = store_f4 ?m (4 * n) (rhs ! n)"
    by simp
  have "load_f4 (store_f4 ?m (4 * n) (rhs ! n)) j =
          (if j mod 4 = 0 \<and> j div 4 < Suc n then rhs ! (j div 4) else load_f4 mem j)" for j
  proof (cases "j = 4 * n")
    case True
    then show ?thesis using room by (simp add: load_store_same)
  next
    case False
    then have "\<not> (j mod 4 = 0 \<and> j div 4 = n)" by auto
    then have "(j mod 4 = 0 \<and> j div 4 < Suc n) = (j mod 4 = 0 \<and> j div 4 < n)"
      by (auto simp: less_Suc_eq)
    then show ?thesis using room False by (simp add: load_store_other IH(2))
  qed
  then show ?case unfolding step using room IH(1) by (simp add: length_store_f4)
qed

lemma load_negate_first_column:
  assumes "16 * rows \<le> length mem"
  shows "load_f4 (negate_first_column mem rows) j =
           (if j mod 4 = 0 \<and> j div 4 < rows then f32_neg (load_f4 mem j) else load_f4 mem j)"
proof -
  have "j mod 4 = 0 \<Longrightarrow> 4 * (j div 4) = j" by presburger
  then show ?thesis
    unfolding negate_first_column_def Let_def
    using fold_store_f4 [OF assms, of "map (\<lambda>i. f32_neg (load_f4 mem (4 * i))) [0..<rows]"]
    by simp
qed

subsection \<open>The semantic callback, case by case\<close>

lemma override_loop_resolved':
  "fold (actor_override ac (map ObjIdx data)) (np_unique (map ObjIdx data))
     (map (\<lambda>i. LABEL_COLORS ! unat i) (map ObjTag data))
   = map (resolved_color ac) data"
  unfolding override_loop_resolved resolved_color_def ..

lemma semantic_lidar_callback_ok:
  assumes len: "length (memory s raw) mod 24 = 0"
      and tags: "list_all (\<lambda>d. unat (ObjTag d) < 29) (semantic_data (memory s raw))"
  shows "semantic_lidar_callback s raw =
     (s\<lparr>point_list := (point_list s)
         \<lparr>points := map (\<lambda>d. (f32_val (fld_x d), np_neg (f32_val (fld_y d)), f32_val (fld_z d)))
                      (filter (\<lambda>d. resolved_color (actor_colors s) d \<noteq> (Finite 0, Finite 0, Finite 0))
                         (semantic_data (memory s raw))),
          colors := map (resolved_color (actor_colors s))
                      (filter (\<lambda>d. resolved_color (actor_colors s) d \<noteq> (Finite 0, Finite 0, Finite 0))
                         (semantic_data (memory s raw)))\<rparr>\<rparr>,
      None)"
proof -
  let ?data = "semantic_data (memory s raw)"
  let ?keep = "\<lambda>d. resolved_color (actor_colors s) d \<noteq> (Finite 0, Finite 0, Finite 0)"
  have fb: "np_frombuffer 24 (memory s raw) = Inr (length (memory s raw) div 24)"
    using len by (simp add: np_frombuffer_def)
  have "list_all (\<lambda>i. unat i < length LABEL_COLORS) (map ObjTag ?data)"
    using tags by (simp add: length_LABEL_COLORS list_all_iff)
  then have fi: "fancy_index LABEL_COLORS (map ObjTag ?data)
                   = Inr (map (\<lambda>i. LABEL_COLORS ! unat i) (map ObjTag ?data))"
    by (rule fancy_index_ok)
  have m: "map not_black (map (resolved_color (actor_colors s)) ?data) = map ?keep ?data"
    by (simp add: not_black_iff)
  have c: "bool_index (map (resolved_color (actor_colors s)) ?data) (map ?keep ?data)
             = map (resolved_color (actor_colors s)) (filter ?keep ?data)"
    by (rule bool_index_map)
  have p: "Vector3dVector (bool_index (map (\<lambda>d. (fld_x d, f32_neg (fld_y d), fld_z d)) ?data)
                              (map ?keep ?data))
             = map (\<lambda>d. (f32_val (fld_x d), np_neg (f32_val (fld_y d)), f32_val (fld_z d)))
                 (filter ?keep ?data)"
    by (simp add: bool_index_map Vector3dVector_def f32_val_neg)
  show ?thesis
    unfolding semantic_lidar_callback_def fb
    by (simp only: sum.case Let_def semantic_data_def [symmetric] fi
          override_loop_resolved' m c p)
qed

lemma semantic_lidar_callback_bad_length:
  "length (memory s raw) mod 24 \<noteq> 0 \<Longrightarrow> semantic_lidar_callback s raw = (s, Some ValueError)"
  by (simp add: semantic_lidar_callback_def np_frombuffer_def)

lemma semantic_lidar_callback_bad_tag:
  assumes len: "length (memory s raw) mod 24 = 0"
      and tag: "list_ex (\<lambda>d. 29 \<le> unat (ObjTag d)) (semantic_data (memory s raw))"
  shows "semantic_lidar_callback s raw = (s, Some IndexError)"
proof -
  have fb: "np_frombuffer 24 (memory s raw) = Inr (length (memory s raw) div 24)"
    using len by (simp add: np_frombuffer_def)
  have "list_ex (\<lambda>i. length LABEL_COLORS \<le> unat i) (map ObjTag (semantic_data (memory s raw)))"
    using tag by (simp add: length_LABEL_COLORS list_ex_iff)
  then have fi: "fancy_index LABEL_COLORS (map ObjTag (semantic_data (memory s raw))) = Inl IndexError"
    by (rule fancy_index_error)
  show ?thesis
    unfolding semantic_lidar_callback_def fb
    by (simp only: sum.case Let_def semantic_data_def [symmetric] fi)
qed

subsection \<open>The intensity callback, case by case\<close>

lemma np_interp_ok:
  "V \<noteq> [] \<Longrightarrow> np_interp t (VID_RANGE V) (map f V) = Inr (map (interp1 (VID_RANGE V) (map f V)) t)"
  by (simp add: np_interp_def VID_RANGE_def)

lemma np_interp_empty: "np_interp t (VID_RANGE []) fp = Inl ValueError"
  by (simp add: np_interp_def VID_RANGE_def)

lemma lidar_callback_bad_item:
  "length (memory s raw) mod 4 \<noteq> 0 \<Longrightarrow> lidar_callback V s raw = (s, Some ValueError)"
  by (simp add: lidar_callback_def np_frombuffer_def)

lemma lidar_callback_bad_rows:
  "length (memory s raw) mod 4 = 0 \<Longrightarrow> length (memory s raw) mod 16 \<noteq> 0 \<Longrightarrow>
   lidar_callback V s raw = (snd (np_copy s raw), Some ValueError)"
proof -
  assume a: "length (memory s raw) mod 4 = 0" and b: "length (memory s raw) mod 16 \<noteq> 0"
  have "length (memory s raw) div 4 div 4 * 4 \<noteq> length (memory s raw) div 4"
    using a b by presburger
  then show ?thesis
    using a by (simp add: lidar_callback_def np_frombuffer_def np_copy_def Let_def)
qed

lemma lidar_callback_ok:
  assumes len: "length (memory s raw) = 16 * P" and V: "V \<noteq> []"
  shows "lidar_callback V s raw =
     (s\<lparr>memory := (memory s)(free_addr s := negate_first_column (memory s raw) P),
        free_addr := free_addr s + 1,
        point_list := (point_list s)
          \<lparr>points := map (\<lambda>i. (np_neg (f32_val (load_f4 (memory s raw) (4 * i))),
                                f32_val (load_f4 (memory s raw) (4 * i + 1)),
                                f32_val (load_f4 (memory s raw) (4 * i + 2)))) [0..<P],
           colors := map (\<lambda>i. (interp1 (VID_RANGE V) (map fst V)
                                   (intensity_col (load_f4 (memory s raw) (4 * i + 3))),
                                interp1 (VID_RANGE V) (map (fst \<circ> snd) V)
                                   (intensity_col (load_f4 (memory s raw) (4 * i + 3))),
                                interp1 (VID_RANGE V) (map (snd \<circ> snd) V)
                                   (intensity_col (load_f4 (memory s raw) (4 * i + 3))))) [0..<P]\<rparr>\<rparr>,
      None)"
proof -
  let ?m = "memory s raw"
  have fb: "np_frombuffer 4 ?m = Inr (4 * P)"
    using len by (simp add: np_frombuffer_def)
  have room: "16 * P \<le> length ?m" using len by simp
  have pts: "map (\<lambda>i. (f32_val (load_f4 (negate_first_column ?m P) (4 * i)),
                       f32_val (load_f4 (negate_first_column ?m P) (Suc (4 * i))),
                       f32_val (load_f4 (negate_first_column ?m P) (Suc (Suc (4 * i)))))) [0..<P]
             = map (\<lambda>i. (np_neg (f32_val (load_f4 ?m (4 * i))),
                          f32_val (load_f4 ?m (Suc (4 * i))),
                          f32_val (load_f4 ?m (Suc (Suc (4 * i)))))) [0..<P]"
  proof (rule map_cong [OF refl])
    fix i assume "i \<in> set [0..<P]"
    then have i: "i < P" by simp
    have "Suc (4 * i) mod 4 \<noteq> 0" "Suc (Suc (4 * i)) mod 4 \<noteq> 0" by presburger+
    then show "(f32_val (load_f4 (negate_first_column ?m P) (4 * i)),
                f32_val (load_f4 (negate_first_column ?m P) (Suc (4 * i))),
                f32_val (load_f4 (negate_first_column ?m P) (Suc (Suc (4 * i)))))
             = (np_neg (f32_val (load_f4 ?m (4 * i))),
                f32_val (load_f4 ?m (Suc (4 * i))),
                f32_val (load_f4 ?m (Suc (Suc (4 * i)))))"
      using i by (simp add: load_negate_first_column [OF room] f32_val_neg)
  qed
  have zip3: "zip (map f [0..<P]) (zip (map g [0..<P]) (map h [0..<P]))
                = map (\<lambda>i. (f i, g i, h i)) [0..<P]" for f g h :: "nat \<Rightarrow> np_float"
    by (induction P) (simp_all add: zip_append)
  show ?thesis
    unfolding lidar_callback_def fb
    by (simp add: np_copy_def Let_def np_interp_ok [OF V] pts zip3 Vector3dVector_def
          comp_def)
qed

lemma lidar_callback_frame:
  "a \<noteq> free_addr s \<Longrightarrow> memory (fst (lidar_callback V s raw)) a = memory s a"
  by (auto simp: lidar_callback_def np_copy_def Let_def split: sum.splits)

lemma lidar_callback_bad_length:
  "length (memory s raw) mod 16 \<noteq> 0 \<Longrightarrow>
   snd (lidar_callback V s raw) = Some ValueError
   \<and> point_list (fst (lidar_callback V s raw)) = point_list s"
proof (cases "length (memory s raw) mod 4 = 0")
  case True
  assume "length (memory s raw) mod 16 \<noteq> 0"
  with True show ?thesis by (simp add: lidar_callback_bad_rows np_copy_def)
next
  case False
  then show ?thesis by (simp add: lidar_callback_bad_item)
qed

subsection \<open>Intensity to colour\<close>

lemma log_attenuation: "np_log (np_exp (Finite (- 0.004 * 100))) = Finite (- (2 / 5))"
  by simp

lemma intensity_col_cases:
  "intensity_col w =
     (case f32_val w of
        Finite a \<Rightarrow> if 0 < a then Finite (1 + ln a * (5 / 2)) else if a = 0 then NInf else NaN
      | PInf \<Rightarrow> PInf
      | NInf \<Rightarrow> NaN
      | NaN \<Rightarrow> NaN)"
  unfolding intensity_col_def log_attenuation
  by (simp split: np_float.splits)

lemma lerp_unit:
  fixes a b x0 x1 v :: real
  assumes "0 \<le> a" "a \<le> 1" "0 \<le> b" "b \<le> 1" "x0 < v" "v < x1"
  shows "0 \<le> (b - a) / (x1 - x0) * (v - x0) + a \<and> (b - a) / (x1 - x0) * (v - x0) + a \<le> 1"
proof -
  define t where "t = (v - x0) / (x1 - x0)"
  have t: "0 \<le> t" "t \<le> 1" using assms by (simp_all add: t_def)
  have e: "(b - a) / (x1 - x0) * (v - x0) + a = a * (1 - t) + b * t"
    by (simp add: t_def algebra_simps diff_divide_distrib add_divide_distrib)
  have "0 \<le> a * (1 - t) + b * t" using assms t by simp
  moreover have "a * (1 - t) \<le> 1 - t" "b * t \<le> t"
    using mult_right_mono [of a 1 "1 - t"] mult_right_mono [of b 1 t] assms t by simp_all
  then have "a * (1 - t) + b * t \<le> 1" by simp
  ultimately show ?thesis unfolding e by simp
qed

lemma interp1_unit:
  assumes xp: "xp \<noteq> []" and len: "length fp = length xp"
      and fp: "\<forall>y \<in> set fp. 0 \<le> y \<and> y \<le> 1" and x: "x \<noteq> NaN"
  shows "unit_interval (interp1 xp fp x)"
proof -
  have ne: "fp \<noteq> []" using xp len by auto
  have U: "unit_interval (Finite y)" if "y \<in> set fp" for y
    using that fp by (simp add: unit_interval_def)
  have hd: "unit_interval (Finite (hd fp))" and last: "unit_interval (Finite (last fp))"
    using ne by (simp_all add: U)
  have nth: "unit_interval (Finite (fp ! i))" if "i < length xp" for i
    using that len by (simp add: U)
  show ?thesis
  proof (cases "length xp = 1")
    case True
    then show ?thesis by (simp add: interp1_def hd)
  next
    case False
    show ?thesis
    proof (cases x)
      case (Finite v)
      let ?k = "length (takeWhile (\<lambda>a. a \<le> v) xp)"
      show ?thesis
      proof (cases "last xp < v \<or> v < hd xp")
        case True
        then show ?thesis using False Finite by (auto simp: interp1_def hd last)
      next
        case inside: False
        then have "hd xp \<le> v" by simp
        then have k1: "1 \<le> ?k" using xp by (cases xp) simp_all
        have kle: "?k \<le> length xp" by (rule length_takeWhile_le)
        have j: "?k - 1 < length xp" using k1 kle by simp
        have xj: "xp ! (?k - 1) \<le> v"
        proof -
          have "?k - 1 < ?k" using k1 by simp
          then have "takeWhile (\<lambda>a. a \<le> v) xp ! (?k - 1) \<in> set (takeWhile (\<lambda>a. a \<le> v) xp)"
            by (rule nth_mem)
          then have "takeWhile (\<lambda>a. a \<le> v) xp ! (?k - 1) \<le> v"
            by (rule set_takeWhileD [THEN conjunct2])
          moreover have "takeWhile (\<lambda>a. a \<le> v) xp ! (?k - 1) = xp ! (?k - 1)"
            using k1 by (intro takeWhile_nth) simp
          ultimately show ?thesis by simp
        qed
        show ?thesis
        proof (cases "?k - 1 = length xp - 1 \<or> xp ! (?k - 1) = v")
          case True
          then show ?thesis
            using False Finite inside nth [OF j] by (auto simp: interp1_def Let_def)
        next
          case mid: False
          then have klt: "?k < length xp" using k1 kle by linarith
          then have "\<not> xp ! ?k \<le> v" by (rule nth_length_takeWhile)
          then have xk: "v < xp ! ?k" by simp
          have xj': "xp ! (?k - 1) < v" using xj mid by simp
          have k: "Suc (?k - Suc 0) = ?k" using k1 by simp
          have a: "0 \<le> fp ! (?k - 1) \<and> fp ! (?k - 1) \<le> 1"
            using fp len j by simp
          have b: "0 \<le> fp ! ?k \<and> fp ! ?k \<le> 1"
            using fp len klt by simp
          have "unit_interval (Finite ((fp ! ?k - fp ! (?k - 1)) / (xp ! ?k - xp ! (?k - 1))
                                 * (v - xp ! (?k - 1)) + fp ! (?k - 1)))"
            using lerp_unit [of "fp ! (?k - 1)" "fp ! ?k" "xp ! (?k - 1)" v "xp ! ?k"] a b xj' xk
            by (simp add: unit_interval_def)
          then show ?thesis
            using False Finite inside mid by (simp add: interp1_def Let_def k)
        qed
      qed
    next
      case PInf
      then show ?thesis using False by (simp add: interp1_def last)
    next
      case NInf
      then show ?thesis using False by (simp add: interp1_def hd)
    next
      case NaN
      then show ?thesis using x by simp
    qed
  qed
qed

lemma interp1_NaN: "length xp \<noteq> 1 \<Longrightarrow> interp1 xp fp NaN = NaN"
  by (simp add: interp1_def)

lemma interp1_NInf: "length xp \<noteq> 1 \<Longrightarrow> interp1 xp fp NInf = Finite (hd fp)"
  by (simp add: interp1_def)

lemma length_VID_RANGE [simp]: "length (VID_RANGE V) = length V"
  by (simp add: VID_RANGE_def)

subsection \<open>The sample payloads, decoded\<close>

lemma f32_one: "f32_val 0x3F800000 = Finite 1" by (simp add: f32_val_def)
lemma f32_two: "f32_val 0x40000000 = Finite 2" by (simp add: f32_val_def)
lemma f32_three: "f32_val 0x40400000 = Finite 3" by (simp add: f32_val_def)

lemma semantic_data_payload:
  "semantic_data semantic_payload =
     [\<lparr>fld_x = 0x3F800000, fld_y = 0x40000000, fld_z = 0x40400000, CosAngle = 0, ObjIdx = 5, ObjTag = 14\<rparr>,
      \<lparr>fld_x = 0x3F800000, fld_y = 0x40000000, fld_z = 0x40400000, CosAngle = 0, ObjIdx = 0, ObjTag = 1\<rparr>,
      \<lparr>fld_x = 0x3F800000, fld_y = 0x40000000, fld_z = 0x40400000, CosAngle = 0, ObjIdx = 7, ObjTag = 3\<rparr>]"
  by (simp add: semantic_data_def semantic_payload_def semantic_at_def load_f4_def upt_rec)

lemma length_semantic_payload: "length semantic_payload = 72"
  by (simp add: semantic_payload_def)

lemma memory_pipeline_with [simp]: "memory (pipeline_with payload ac) 0 = payload"
  by (simp add: pipeline_with_def)

lemma actor_colors_pipeline_with [simp]: "actor_colors (pipeline_with payload ac) = ac"
  by (simp add: pipeline_with_def)

lemma LABEL_COLORS_samples:
  "LABEL_COLORS ! 14 = (Finite 0, Finite 0, Finite (142 / 255))"
  "LABEL_COLORS ! 1 = (Finite 0, Finite 0, Finite 0)"
  "LABEL_COLORS ! Suc 0 = (Finite 0, Finite 0, Finite 0)"
  "LABEL_COLORS ! 3 = (Finite (70 / 255), Finite (70 / 255), Finite (70 / 255))"
  by (simp_all add: LABEL_COLORS_def)

lemma length_raw_payload: "length (raw_payload [a, b, c, d]) = 16"
  by (simp add: raw_payload_def)

lemma load_raw_payload:
  "load_f4 (raw_payload [a, b, c, d]) 0 = 0x3F800000"
  "load_f4 (raw_payload [a, b, c, d]) 1 = 0x40000000"
  "load_f4 (raw_payload [a, b, c, d]) (Suc 0) = 0x40000000"
  "load_f4 (raw_payload [a, b, c, d]) 2 = 0x40400000"
  "load_f4 (raw_payload [a, b, c, d]) (Suc (Suc 0)) = 0x40400000"
  "load_f4 (raw_payload [a, b, c, d]) 3 = f32_of_bytes [a, b, c, d]"
  by (simp_all add: raw_payload_def load_f4_def)

lemma f32_minus_one: "f32_val 0xBF800000 = Finite (- 1)" by (simp add: f32_val_def)
lemma f32_zero: "f32_val 0 = Finite 0" by (simp add: f32_val_def)

subsection \<open>The semantic callback\<close>

text \<open>
  Claim C1. On a payload of \<^verbatim>\<open>24 * P\<close> bytes whose class tags are all below 29, the
  semantic callback raises nothing and leaves in \<^verbatim>\<open>point_list\<close> exactly the items whose
  final resolved colour (the actor colour of the instance id if there is one, the palette
  colour of the class tag otherwise) is not \<^verbatim>\<open>[0, 0, 0]\<close>, in buffer order: their
  positions \<^verbatim>\<open>(x, -y, z)\<close> and their resolved colours. So positions and colours have the
  same length, at most \<^verbatim>\<open>P\<close>, and no colour left is \<^verbatim>\<open>[0, 0, 0]\<close>.
\<close>

theorem semantic_decoder_filters_black:
  "length (memory s raw) = 24 * P \<Longrightarrow>
   list_all (\<lambda>d. unat (ObjTag d) < 29) (semantic_data (memory s raw)) \<Longrightarrow>
   snd (semantic_lidar_callback s raw) = None
   \<and> points (point_list (fst (semantic_lidar_callback s raw))) =
       map (\<lambda>d. (f32_val (fld_x d), np_neg (f32_val (fld_y d)), f32_val (fld_z d)))
         (filter (\<lambda>d. resolved_color (actor_colors s) d \<noteq> (Finite 0, Finite 0, Finite 0))
            (semantic_data (memory s raw)))
   \<and> colors (point_list (fst (semantic_lidar_callback s raw))) =
       map (resolved_color (actor_colors s))
         (filter (\<lambda>d. resolved_color (actor_colors s) d \<noteq> (Finite 0, Finite 0, Finite 0))
            (semantic_data (memory s raw)))
   \<and> length (semantic_data (memory s raw)) = P
   \<and> length (points (point_list (fst (semantic_lidar_callback s raw)))) =
       length (colors (point_list (fst (semantic_lidar_callback s raw))))
   \<and> length (points (point_list (fst (semantic_lidar_callback s raw)))) \<le> P
   \<and> (Finite 0, Finite 0, Finite 0) \<notin>
       set (colors (point_list (fst (semantic_lidar_callback s raw))))"
proof -
  assume len: "length (memory s raw) = 24 * P"
     and tags: "list_all (\<lambda>d. unat (ObjTag d) < 29) (semantic_data (memory s raw))"
  from len have m: "length (memory s raw) mod 24 = 0" by simp
  have n: "length (semantic_data (memory s raw)) = P"
    using len by (simp add: semantic_data_def)
  have "length (filter (\<lambda>d. resolved_color (actor_colors s) d \<noteq> (Finite 0, Finite 0, Finite 0))
            (semantic_data (memory s raw))) \<le> P"
    using length_filter_le [of _ "semantic_data (memory s raw)"] n by simp
  then show ?thesis
    by (auto simp: semantic_lidar_callback_ok [OF m tags] n)
qed

text \<open>
  The theorem on the sample payload, with an actor colour for instance 7: the road item
  is dropped, the car keeps its palette colour and the building shows the actor colour.
\<close>

theorem semantic_decoder_filters_black_witness:
  "length (memory (pipeline_with semantic_payload [7 \<mapsto> (Finite (1 / 2), Finite (1 / 4), Finite 0)]) 0)
     = 24 * 3
   \<and> list_all (\<lambda>d. unat (ObjTag d) < 29)
       (semantic_data
         (memory (pipeline_with semantic_payload [7 \<mapsto> (Finite (1 / 2), Finite (1 / 4), Finite 0)]) 0))
   \<and> points (point_list (fst (semantic_lidar_callback
        (pipeline_with semantic_payload [7 \<mapsto> (Finite (1 / 2), Finite (1 / 4), Finite 0)]) 0)))
     = [(Finite 1, Finite (- 2), Finite 3), (Finite 1, Finite (- 2), Finite 3)]
   \<and> colors (point_list (fst (semantic_lidar_callback
        (pipeline_with semantic_payload [7 \<mapsto> (Finite (1 / 2), Finite (1 / 4), Finite 0)]) 0)))
     = [(Finite 0, Finite 0, Finite (142 / 255)), (Finite (1 / 2), Finite (1 / 4), Finite 0)]"
proof -
  let ?s = "pipeline_with semantic_payload [7 \<mapsto> (Finite (1 / 2), Finite (1 / 4), Finite 0)]"
  have h1: "length (memory ?s 0) = 24 * 3"
    by (simp add: length_semantic_payload)
  have h2: "list_all (\<lambda>d. unat (ObjTag d) < 29) (semantic_data (memory ?s 0))"
    by (simp add: semantic_data_payload)
  show ?thesis
    using h1 h2 semantic_decoder_filters_black [OF h1 h2]
    by (simp add: semantic_data_payload resolved_color_def LABEL_COLORS_samples
          f32_one f32_two f32_three)
qed

text \<open>
  Claim C7. A payload with an item whose class tag is 29 or more makes the semantic
  callback raise and leave the state as it was: \<^verbatim>\<open>IndexError\<close> from the palette lookup
  when the length of the payload is a multiple of 24, and \<^verbatim>\<open>ValueError\<close> from
  \<^verbatim>\<open>np.frombuffer\<close> before that when it is not. The index is neither wrapped nor clamped.
\<close>

theorem class_tag_out_of_range_raises:
  "i < length (memory s raw) div 24 \<Longrightarrow>
   29 \<le> unat (ObjTag (semantic_at (memory s raw) i)) \<Longrightarrow>
   semantic_lidar_callback s raw =
     (s, Some (if length (memory s raw) mod 24 = 0 then IndexError else ValueError))"
proof -
  assume i: "i < length (memory s raw) div 24"
     and t: "29 \<le> unat (ObjTag (semantic_at (memory s raw) i))"
  show ?thesis
  proof (cases "length (memory s raw) mod 24 = 0")
    case True
    have "semantic_at (memory s raw) i \<in> set (semantic_data (memory s raw))"
      using i by (simp add: semantic_data_def)
    with t have "list_ex (\<lambda>d. 29 \<le> unat (ObjTag d)) (semantic_data (memory s raw))"
      by (auto simp: list_ex_iff)
    with True show ?thesis by (simp add: semantic_lidar_callback_bad_tag)
  next
    case False
    then show ?thesis by (simp add: semantic_lidar_callback_bad_length)
  qed
qed

text \<open>The theorem on the sample payload with the class tag of its first item set to 29.\<close>

theorem class_tag_out_of_range_raises_witness:
  "(0::nat) < length (memory (pipeline_with (semantic_payload[20 := 29]) Map.empty) 0) div 24
   \<and> 29 \<le> unat (ObjTag (semantic_at (memory (pipeline_with (semantic_payload[20 := 29]) Map.empty) 0) 0))
   \<and> semantic_lidar_callback (pipeline_with (semantic_payload[20 := 29]) Map.empty) 0
       = (pipeline_with (semantic_payload[20 := 29]) Map.empty, Some IndexError)"
proof -
  let ?s = "pipeline_with (semantic_payload[20 := 29]) Map.empty"
  have h1: "(0::nat) < length (memory ?s 0) div 24"
    by (simp add: length_semantic_payload)
  have h2: "29 \<le> unat (ObjTag (semantic_at (memory ?s 0) 0))"
    by (simp add: semantic_payload_def semantic_at_def load_f4_def)
  show ?thesis
    using h1 h2 class_tag_out_of_range_raises [OF h1 h2]
    by (simp add: length_semantic_payload)
qed

lemma assign_actor_colors_keeps:
  "ac k = Some c \<Longrightarrow> assign_actor_colors actors ac k = Some c"
proof (induction actors arbitrary: ac)
  case Nil
  then show ?case by simp
next
  case (Cons a actors)
  obtain actor_id rnd where a: "a = (actor_id, rnd)" by (cases a)
  have "(case ac actor_id of None \<Rightarrow> ac(actor_id \<mapsto> rnd) | Some c \<Rightarrow> ac) k = Some c"
    using Cons.prems by (auto split: option.splits)
  then show ?case unfolding a assign_actor_colors.simps by (rule Cons.IH)
qed

lemma semantic_lidar_callback_frame:
  "actor_colors (fst (semantic_lidar_callback s raw)) = actor_colors s
   \<and> memory (fst (semantic_lidar_callback s raw)) = memory s
   \<and> free_addr (fst (semantic_lidar_callback s raw)) = free_addr s"
  by (simp add: semantic_lidar_callback_def Let_def split: sum.splits)

text \<open>
  Claim C8. An entry of the actor colour table, once there, stays as it is: the
  assignment loop of \<^verbatim>\<open>main\<close> skips an id that has a colour, and the semantic callback
  returns the table it was given. So after any earlier frame, decoding a well-formed
  payload gives the colour of the table to every point left in \<^verbatim>\<open>point_list\<close> that
  carries the id.
\<close>

theorem actor_colors_stable:
  "actor_colors s aid = Some c \<Longrightarrow>
   s1 = fst (semantic_lidar_callback s raw) \<Longrightarrow>
   length (memory s1 raw') mod 24 = 0 \<Longrightarrow>
   list_all (\<lambda>d. unat (ObjTag d) < 29) (semantic_data (memory s1 raw')) \<Longrightarrow>
   assign_actor_colors actors (actor_colors s) aid = Some c
   \<and> actor_colors s1 = actor_colors s
   \<and> actor_colors (fst (semantic_lidar_callback s1 raw')) = actor_colors s
   \<and> (\<forall>k < length (filter (\<lambda>d. resolved_color (actor_colors s) d \<noteq> (Finite 0, Finite 0, Finite 0))
                       (semantic_data (memory s1 raw'))).
        uint (ObjIdx (filter (\<lambda>d. resolved_color (actor_colors s) d \<noteq> (Finite 0, Finite 0, Finite 0))
                       (semantic_data (memory s1 raw')) ! k)) = aid \<longrightarrow>
        colors (point_list (fst (semantic_lidar_callback s1 raw'))) ! k = c)"
proof -
  assume c: "actor_colors s aid = Some c"
     and s1: "s1 = fst (semantic_lidar_callback s raw)"
     and len: "length (memory s1 raw') mod 24 = 0"
     and tags: "list_all (\<lambda>d. unat (ObjTag d) < 29) (semantic_data (memory s1 raw'))"
  have ac: "actor_colors s1 = actor_colors s"
    unfolding s1 by (simp add: semantic_lidar_callback_frame)
  have "resolved_color (actor_colors s) d = c" if "uint (ObjIdx d) = aid" for d
    using that c by (simp add: resolved_color_def)
  then show ?thesis
    using c ac
    by (simp add: assign_actor_colors_keeps semantic_lidar_callback_ok [OF len tags])
qed

text \<open>
  The theorem on the sample payload, decoded twice, with a colour for instance 7: the
  second point left is the building of instance 7, in the colour of the table.
\<close>

theorem actor_colors_stable_witness:
  "[7 \<mapsto> (Finite (1 / 2), Finite (1 / 4), Finite 0)] (7::int)
     = Some (Finite (1 / 2), Finite (1 / 4), Finite 0)
   \<and> length (memory (fst (semantic_lidar_callback
         (pipeline_with semantic_payload [7 \<mapsto> (Finite (1 / 2), Finite (1 / 4), Finite 0)]) 0)) 0)
        mod 24 = 0
   \<and> assign_actor_colors [(7, (Finite 0, Finite 0, Finite 0)), (8, (Finite 1, Finite 0, Finite 0))]
        [7 \<mapsto> (Finite (1 / 2), Finite (1 / 4), Finite 0)] 7
       = Some (Finite (1 / 2), Finite (1 / 4), Finite 0)
   \<and> colors (point_list (fst (semantic_lidar_callback
        (fst (semantic_lidar_callback
          (pipeline_with semantic_payload [7 \<mapsto> (Finite (1 / 2), Finite (1 / 4), Finite 0)]) 0))
        0))) ! 1
       = (Finite (1 / 2), Finite (1 / 4), Finite 0)"
proof -
  let ?ac = "[(7::int) \<mapsto> (Finite (1 / 2), Finite (1 / 4), Finite 0)]"
  let ?s = "pipeline_with semantic_payload ?ac"
  let ?s1 = "fst (semantic_lidar_callback ?s 0)"
  have m: "memory ?s1 0 = semantic_payload"
    by (simp add: semantic_lidar_callback_frame)
  have h1: "actor_colors ?s 7 = Some (Finite (1 / 2), Finite (1 / 4), Finite 0)"
    by simp
  have h3: "length (memory ?s1 0) mod 24 = 0"
    by (simp add: m length_semantic_payload)
  have h4: "list_all (\<lambda>d. unat (ObjTag d) < 29) (semantic_data (memory ?s1 0))"
    by (simp add: m semantic_data_payload)
  have kept: "filter (\<lambda>d. resolved_color ?ac d \<noteq> (Finite 0, Finite 0, Finite 0))
                (semantic_data semantic_payload)
              = [\<lparr>fld_x = 0x3F800000, fld_y = 0x40000000, fld_z = 0x40400000, CosAngle = 0,
                   ObjIdx = 5, ObjTag = 14\<rparr>,
                 \<lparr>fld_x = 0x3F800000, fld_y = 0x40000000, fld_z = 0x40400000, CosAngle = 0,
                   ObjIdx = 7, ObjTag = 3\<rparr>]"
    by (simp add: semantic_data_payload resolved_color_def LABEL_COLORS_samples)
  show ?thesis
    using h1 h3 actor_colors_stable [OF h1 refl h3 h4,
        of "[(7, (Finite 0, Finite 0, Finite 0)), (8, (Finite 1, Finite 0, Finite 0))]"]
    by (simp add: m kept)
qed

subsection \<open>The intensity callback\<close>

text \<open>
  Claim C2, as the code has it. On a payload of \<^verbatim>\<open>16 * P\<close> bytes, with a colour ramp that
  is not empty and has its channels between 0 and 1, the intensity callback raises
  nothing and leaves exactly \<^verbatim>\<open>P\<close> positions and \<^verbatim>\<open>P\<close> colours, none filtered out. The
  three channels of the colour of a sample are between 0 and 1 when the intensity of the
  sample is zero, positive or plus infinity, that is, neither negative nor not-a-number.
\<close>

theorem intensity_decoder_counts_and_colors:
  "length (memory s raw) = 16 * P \<Longrightarrow>
   V \<noteq> [] \<Longrightarrow>
   list_all (\<lambda>(r, g, b). 0 \<le> r \<and> r \<le> 1 \<and> 0 \<le> g \<and> g \<le> 1 \<and> 0 \<le> b \<and> b \<le> 1) V \<Longrightarrow>
   snd (lidar_callback V s raw) = None
   \<and> length (points (point_list (fst (lidar_callback V s raw)))) = P
   \<and> length (colors (point_list (fst (lidar_callback V s raw)))) = P
   \<and> (\<forall>i < P.
         f32_val (load_f4 (memory s raw) (4 * i + 3)) = PInf
         \<or> (\<exists>a \<ge> 0. f32_val (load_f4 (memory s raw) (4 * i + 3)) = Finite a)
         \<longrightarrow> (case colors (point_list (fst (lidar_callback V s raw))) ! i of
                (r, g, b) \<Rightarrow> unit_interval r \<and> unit_interval g \<and> unit_interval b))"
proof -
  assume len: "length (memory s raw) = 16 * P" and V: "V \<noteq> []"
     and unit: "list_all (\<lambda>(r, g, b). 0 \<le> r \<and> r \<le> 1 \<and> 0 \<le> g \<and> g \<le> 1 \<and> 0 \<le> b \<and> b \<le> 1) V"
  have xp: "VID_RANGE V \<noteq> []" using V by (simp add: VID_RANGE_def)
  have ch: "\<forall>y \<in> set (map fst V). 0 \<le> y \<and> y \<le> 1"
           "\<forall>y \<in> set (map (fst \<circ> snd) V). 0 \<le> y \<and> y \<le> 1"
           "\<forall>y \<in> set (map (snd \<circ> snd) V). 0 \<le> y \<and> y \<le> 1"
    using unit by (auto simp: list_all_iff)
  have col: "unit_interval (interp1 (VID_RANGE V) (map f V) (intensity_col w))"
    if "\<forall>y \<in> set (map f V). 0 \<le> y \<and> y \<le> 1"
       and "f32_val w = PInf \<or> (\<exists>a \<ge> 0. f32_val w = Finite a)" for f w
  proof -
    have "intensity_col w \<noteq> NaN"
      using that(2) by (auto simp: intensity_col_cases split: if_splits)
    with xp that(1) show ?thesis by (intro interp1_unit) simp_all
  qed
  show ?thesis
    unfolding lidar_callback_ok [OF len V]
    using ch by (simp add: col)
qed

text \<open>The theorem on a payload of one sample of intensity 1.0 and a ramp of two rows.\<close>

theorem intensity_decoder_counts_and_colors_witness:
  "length (memory (pipeline_with (raw_payload [0, 0, 0x80, 0x3F]) Map.empty) 0) = 16 * 1
   \<and> [(0, 0, 0), (1, 1 / 2, 1 / 4)] \<noteq> ([] :: (real \<times> real \<times> real) list)
   \<and> list_all (\<lambda>(r, g, b). 0 \<le> r \<and> r \<le> 1 \<and> 0 \<le> g \<and> g \<le> 1 \<and> 0 \<le> b \<and> b \<le> 1)
        ([(0, 0, 0), (1, 1 / 2, 1 / 4)] :: (real \<times> real \<times> real) list)
   \<and> f32_val (load_f4 (memory (pipeline_with (raw_payload [0, 0, 0x80, 0x3F]) Map.empty) 0) 3)
        = Finite 1
   \<and> snd (lidar_callback [(0, 0, 0), (1, 1 / 2, 1 / 4)]
             (pipeline_with (raw_payload [0, 0, 0x80, 0x3F]) Map.empty) 0) = None
   \<and> length (points (point_list (fst (lidar_callback [(0, 0, 0), (1, 1 / 2, 1 / 4)]
             (pipeline_with (raw_payload [0, 0, 0x80, 0x3F]) Map.empty) 0)))) = 1
   \<and> length (colors (point_list (fst (lidar_callback [(0, 0, 0), (1, 1 / 2, 1 / 4)]
             (pipeline_with (raw_payload [0, 0, 0x80, 0x3F]) Map.empty) 0)))) = 1
   \<and> (case colors (point_list (fst (lidar_callback [(0, 0, 0), (1, 1 / 2, 1 / 4)]
             (pipeline_with (raw_payload [0, 0, 0x80, 0x3F]) Map.empty) 0))) ! 0 of
         (r, g, b) \<Rightarrow> unit_interval r \<and> unit_interval g \<and> unit_interval b)"
proof -
  let ?s = "pipeline_with (raw_payload [0, 0, 0x80, 0x3F]) Map.empty"
  let ?V = "[(0, 0, 0), (1, 1 / 2, 1 / 4)] :: (real \<times> real \<times> real) list"
  have h1: "length (memory ?s 0) = 16 * 1" by (simp add: length_raw_payload)
  have h2: "?V \<noteq> []" by simp
  have h3: "list_all (\<lambda>(r, g, b). 0 \<le> r \<and> r \<le> 1 \<and> 0 \<le> g \<and> g \<le> 1 \<and> 0 \<le> b \<and> b \<le> 1) ?V"
    by simp
  have i: "f32_val (load_f4 (memory ?s 0) 3) = Finite 1"
    by (simp add: load_raw_payload f32_one)
  show ?thesis
    using h1 h3 i intensity_decoder_counts_and_colors [OF h1 h2 h3]
    by simp
qed

text \<open>
  Claim C2 as stated bounds the colours of every payload of \<^verbatim>\<open>16 * P\<close> bytes. A sample of
  intensity -1.0 (bytes \<^verbatim>\<open>00 00 80 BF\<close>) gets the colour \<^verbatim>\<open>(nan, nan, nan)\<close>.
\<close>

theorem negative_intensity_color_counterexample:
  "length (memory (pipeline_with (raw_payload [0, 0, 0x80, 0xBF]) Map.empty) 0) = 16 * 1
   \<and> f32_val (load_f4 (memory (pipeline_with (raw_payload [0, 0, 0x80, 0xBF]) Map.empty) 0) 3)
       = Finite (- 1)
   \<and> snd (lidar_callback [(0, 0, 0), (1, 1, 1)]
        (pipeline_with (raw_payload [0, 0, 0x80, 0xBF]) Map.empty) 0) = None
   \<and> colors (point_list (fst (lidar_callback [(0, 0, 0), (1, 1, 1)]
        (pipeline_with (raw_payload [0, 0, 0x80, 0xBF]) Map.empty) 0)))
       = [(NaN, NaN, NaN)]
   \<and> \<not> unit_interval NaN"
proof -
  let ?s = "pipeline_with (raw_payload [0, 0, 0x80, 0xBF]) Map.empty"
  have h1: "length (memory ?s 0) = 16 * 1" by (simp add: length_raw_payload)
  have i: "f32_val (load_f4 (memory ?s 0) 3) = Finite (- 1)"
    by (simp add: load_raw_payload f32_minus_one)
  have t: "intensity_col (load_f4 (raw_payload [0, 0, 0x80, 0xBF]) 3) = NaN"
    using i by (simp add: intensity_col_cases)
  have V: "[(0, 0, 0), (1, 1, 1)] \<noteq> ([] :: (real \<times> real \<times> real) list)" by simp
  have c: "colors (point_list (fst (lidar_callback [(0, 0, 0), (1, 1, 1)] ?s 0)))
             = [(NaN, NaN, NaN)]"
    unfolding lidar_callback_ok [OF h1 V]
    by (simp add: t interp1_NaN)
  have e: "snd (lidar_callback [(0, 0, 0), (1, 1, 1)] ?s 0) = None"
    unfolding lidar_callback_ok [OF h1 V] by simp
  show ?thesis
    using h1 i c e by (simp add: unit_interval_def)
qed

lemma f32_minus_two: "f32_val 0xC0000000 = Finite (- 2)" by (simp add: f32_val_def)

lemma f32_minus_inf: "f32_val 0xFF800000 = NInf" by (simp add: f32_val_def)

text \<open>
  Claim C3, as the code has it. The intensity goes to the logarithm as it is, with no
  clamp. With a colour ramp of at least two rows, a sample of intensity zero hands minus
  infinity to the interpolation, and its colour is the first row of the ramp; a sample
  of negative intensity, minus infinity included, hands it not-a-number, and each
  channel of its colour is not-a-number.
\<close>

theorem nonpositive_intensity_unclamped:
  "length (memory s raw) = 16 * P \<Longrightarrow>
   2 \<le> length V \<Longrightarrow>
   i < P \<Longrightarrow>
   (f32_val (load_f4 (memory s raw) (4 * i + 3)) = Finite 0 \<longrightarrow>
      intensity_col (load_f4 (memory s raw) (4 * i + 3)) = NInf
      \<and> colors (point_list (fst (lidar_callback V s raw))) ! i =
          (Finite (fst (hd V)), Finite (fst (snd (hd V))), Finite (snd (snd (hd V)))))
   \<and> (f32_val (load_f4 (memory s raw) (4 * i + 3)) = NInf
        \<or> (\<exists>a < 0. f32_val (load_f4 (memory s raw) (4 * i + 3)) = Finite a) \<longrightarrow>
      intensity_col (load_f4 (memory s raw) (4 * i + 3)) = NaN
      \<and> colors (point_list (fst (lidar_callback V s raw))) ! i = (NaN, NaN, NaN))"
proof -
  assume len: "length (memory s raw) = 16 * P" and V2: "2 \<le> length V" and i: "i < P"
  from V2 have V: "V \<noteq> []" and n1: "length (VID_RANGE V) \<noteq> 1" by auto
  have col: "colors (point_list (fst (lidar_callback V s raw))) ! i =
      (interp1 (VID_RANGE V) (map fst V) (intensity_col (load_f4 (memory s raw) (4 * i + 3))),
       interp1 (VID_RANGE V) (map (fst \<circ> snd) V) (intensity_col (load_f4 (memory s raw) (4 * i + 3))),
       interp1 (VID_RANGE V) (map (snd \<circ> snd) V) (intensity_col (load_f4 (memory s raw) (4 * i + 3))))"
    unfolding lidar_callback_ok [OF len V] using i by simp
  show ?thesis
    unfolding col
    using V by (auto simp: intensity_col_cases interp1_NaN [OF n1] interp1_NInf [OF n1] hd_map)
qed

text \<open>
  The theorem on payloads of one sample, of intensity 0.0, -2.0 and minus infinity
  (bytes \<^verbatim>\<open>00 00 80 FF\<close>).
\<close>

theorem nonpositive_intensity_unclamped_witness:
  "length (memory (pipeline_with (raw_payload [0, 0, 0, 0]) Map.empty) 0) = 16 * 1
   \<and> 2 \<le> length ([(1 / 8, 1 / 4, 1 / 2), (1, 1, 1)] :: (real \<times> real \<times> real) list)
   \<and> (0::nat) < 1
   \<and> f32_val (load_f4 (memory (pipeline_with (raw_payload [0, 0, 0, 0]) Map.empty) 0) 3)
       = Finite 0
   \<and> intensity_col (load_f4 (memory (pipeline_with (raw_payload [0, 0, 0, 0]) Map.empty) 0) 3)
       = NInf
   \<and> colors (point_list (fst (lidar_callback [(1 / 8, 1 / 4, 1 / 2), (1, 1, 1)]
        (pipeline_with (raw_payload [0, 0, 0, 0]) Map.empty) 0))) ! 0
       = (Finite (1 / 8), Finite (1 / 4), Finite (1 / 2))
   \<and> f32_val (load_f4 (memory (pipeline_with (raw_payload [0, 0, 0, 0xC0]) Map.empty) 0) 3)
       = Finite (- 2)
   \<and> colors (point_list (fst (lidar_callback [(1 / 8, 1 / 4, 1 / 2), (1, 1, 1)]
        (pipeline_with (raw_payload [0, 0, 0, 0xC0]) Map.empty) 0))) ! 0
       = (NaN, NaN, NaN)
   \<and> f32_val (load_f4 (memory (pipeline_with (raw_payload [0, 0, 0x80, 0xFF]) Map.empty) 0) 3)
       = NInf
   \<and> intensity_col
        (load_f4 (memory (pipeline_with (raw_payload [0, 0, 0x80, 0xFF]) Map.empty) 0) 3)
       = NaN
   \<and> colors (point_list (fst (lidar_callback [(1 / 8, 1 / 4, 1 / 2), (1, 1, 1)]
        (pipeline_with (raw_payload [0, 0, 0x80, 0xFF]) Map.empty) 0))) ! 0
       = (NaN, NaN, NaN)"
proof -
  let ?z = "pipeline_with (raw_payload [0, 0, 0, 0]) Map.empty"
  let ?m = "pipeline_with (raw_payload [0, 0, 0, 0xC0]) Map.empty"
  let ?n = "pipeline_with (raw_payload [0, 0, 0x80, 0xFF]) Map.empty"
  let ?V = "[(1 / 8, 1 / 4, 1 / 2), (1, 1, 1)] :: (real \<times> real \<times> real) list"
  have hz: "length (memory ?z 0) = 16 * 1" and hm: "length (memory ?m 0) = 16 * 1"
    and hn: "length (memory ?n 0) = 16 * 1"
    by (simp_all add: length_raw_payload)
  have h2: "2 \<le> length ?V" by simp
  have h3: "(0::nat) < 1" by simp
  have z: "f32_val (load_f4 (memory ?z 0) 3) = Finite 0"
    by (simp add: load_raw_payload f32_zero)
  have m: "f32_val (load_f4 (memory ?m 0) 3) = Finite (- 2)"
    by (simp add: load_raw_payload f32_minus_two)
  have n: "f32_val (load_f4 (memory ?n 0) 3) = NInf"
    by (simp add: load_raw_payload f32_minus_inf)
  show ?thesis
    using hz z m n
      nonpositive_intensity_unclamped [OF hz h2 h3]
      nonpositive_intensity_unclamped [OF hm h2 h3]
      nonpositive_intensity_unclamped [OF hn h2 h3]
    by simp
qed

text \<open>
  Claim C3 as stated has a clamp keep every non-finite value out of the interpolation.
  Intensity 0.0 hands minus infinity to it, and intensity -2.0 hands it not-a-number,
  which comes out as the colour.
\<close>

theorem intensity_clamp_counterexample:
  "f32_val (load_f4 (raw_payload [0, 0, 0, 0]) 3) = Finite 0
   \<and> intensity_col (load_f4 (raw_payload [0, 0, 0, 0]) 3) = NInf
   \<and> f32_val (load_f4 (raw_payload [0, 0, 0, 0xC0]) 3) = Finite (- 2)
   \<and> intensity_col (load_f4 (raw_payload [0, 0, 0, 0xC0]) 3) = NaN
   \<and> colors (point_list (fst (lidar_callback [(0, 0, 0), (1, 1, 1)]
        (pipeline_with (raw_payload [0, 0, 0, 0xC0]) Map.empty) 0)))
       = [(NaN, NaN, NaN)]"
proof -
  let ?s = "pipeline_with (raw_payload [0, 0, 0, 0xC0]) Map.empty"
  have z: "f32_val (load_f4 (raw_payload [0, 0, 0, 0]) 3) = Finite 0"
    by (simp add: load_raw_payload f32_zero)
  have m: "f32_val (load_f4 (raw_payload [0, 0, 0, 0xC0]) 3) = Finite (- 2)"
    by (simp add: load_raw_payload f32_minus_two)
  have tz: "intensity_col (load_f4 (raw_payload [0, 0, 0, 0]) 3) = NInf"
    using z by (simp add: intensity_col_cases)
  have tm: "intensity_col (load_f4 (raw_payload [0, 0, 0, 0xC0]) 3) = NaN"
    using m by (simp add: intensity_col_cases)
  have h1: "length (memory ?s 0) = 16 * 1" by (simp add: length_raw_payload)
  have V: "[(0, 0, 0), (1, 1, 1)] \<noteq> ([] :: (real \<times> real \<times> real) list)" by simp
  have c: "colors (point_list (fst (lidar_callback [(0, 0, 0), (1, 1, 1)] ?s 0)))
             = [(NaN, NaN, NaN)]"
    unfolding lidar_callback_ok [OF h1 V]
    by (simp add: tm interp1_NaN)
  show ?thesis
    using z m tz tm c by simp
qed

subsection \<open>Both callbacks\<close>

text \<open>
  Claim C5. The two callbacks negate different axes. On a well-formed payload the
  intensity callback leaves, for every sample, the position \<^verbatim>\<open>(-x, y, z)\<close>; the semantic
  callback leaves, for every item it keeps, the position \<^verbatim>\<open>(x, -y, z)\<close>.
\<close>

theorem coordinate_adapters:
  "length (memory s raw) = 16 * P \<Longrightarrow>
   V \<noteq> [] \<Longrightarrow>
   length (memory s' raw') = 24 * Q \<Longrightarrow>
   list_all (\<lambda>d. unat (ObjTag d) < 29) (semantic_data (memory s' raw')) \<Longrightarrow>
   points (point_list (fst (lidar_callback V s raw))) =
     map (\<lambda>i. (np_neg (f32_val (load_f4 (memory s raw) (4 * i))),
                f32_val (load_f4 (memory s raw) (4 * i + 1)),
                f32_val (load_f4 (memory s raw) (4 * i + 2)))) [0..<P]
   \<and> points (point_list (fst (semantic_lidar_callback s' raw'))) =
     map (\<lambda>d. (f32_val (fld_x d), np_neg (f32_val (fld_y d)), f32_val (fld_z d)))
       (filter (\<lambda>d. resolved_color (actor_colors s') d \<noteq> (Finite 0, Finite 0, Finite 0))
          (semantic_data (memory s' raw')))"
proof -
  assume len: "length (memory s raw) = 16 * P" and V: "V \<noteq> []"
     and len': "length (memory s' raw') = 24 * Q"
     and tags: "list_all (\<lambda>d. unat (ObjTag d) < 29) (semantic_data (memory s' raw'))"
  from len' have m: "length (memory s' raw') mod 24 = 0" by simp
  show ?thesis
    by (simp add: lidar_callback_ok [OF len V] semantic_lidar_callback_ok [OF m tags])
qed

text \<open>
  The theorem on payloads whose points are at \<^verbatim>\<open>(1.0, 2.0, 3.0)\<close>: the intensity callback
  gives \<^verbatim>\<open>(-1.0, 2.0, 3.0)\<close>, the semantic callback \<^verbatim>\<open>(1.0, -2.0, 3.0)\<close>.
\<close>

theorem coordinate_adapters_witness:
  "length (memory (pipeline_with (raw_payload [0, 0, 0x80, 0x3F]) Map.empty) 0) = 16 * 1
   \<and> [(0, 0, 0), (1, 1, 1)] \<noteq> ([] :: (real \<times> real \<times> real) list)
   \<and> length (memory (pipeline_with semantic_payload Map.empty) 0) = 24 * 3
   \<and> list_all (\<lambda>d. unat (ObjTag d) < 29)
        (semantic_data (memory (pipeline_with semantic_payload Map.empty) 0))
   \<and> points (point_list (fst (lidar_callback [(0, 0, 0), (1, 1, 1)]
        (pipeline_with (raw_payload [0, 0, 0x80, 0x3F]) Map.empty) 0)))
       = [(Finite (- 1), Finite 2, Finite 3)]
   \<and> points (point_list (fst (semantic_lidar_callback
        (pipeline_with semantic_payload Map.empty) 0)))
       = [(Finite 1, Finite (- 2), Finite 3), (Finite 1, Finite (- 2), Finite 3)]"
proof -
  let ?s = "pipeline_with (raw_payload [0, 0, 0x80, 0x3F]) Map.empty"
  let ?s' = "pipeline_with semantic_payload Map.empty"
  have h1: "length (memory ?s 0) = 16 * 1" by (simp add: length_raw_payload)
  have h2: "[(0, 0, 0), (1, 1, 1)] \<noteq> ([] :: (real \<times> real \<times> real) list)" by simp
  have h3: "length (memory ?s' 0) = 24 * 3" by (simp add: length_semantic_payload)
  have h4: "list_all (\<lambda>d. unat (ObjTag d) < 29) (semantic_data (memory ?s' 0))"
    by (simp add: semantic_data_payload)
  show ?thesis
    using h1 h3 h4 coordinate_adapters [OF h1 h2 h3 h4]
    by (simp add: semantic_data_payload resolved_color_def LABEL_COLORS_samples
          load_raw_payload f32_one f32_two f32_three)
qed

text \<open>
  Claim C6. A payload whose length is not a multiple of the record size, 16 bytes for the
  intensity callback and 24 bytes for the semantic callback, makes the callback raise
  \<^verbatim>\<open>ValueError\<close>, and \<^verbatim>\<open>point_list\<close> stays as it was: nothing is decoded from the
  truncated record, nor from the records before it.
\<close>

theorem malformed_length_raises:
  "(length (memory s raw) mod 16 \<noteq> 0 \<longrightarrow>
      snd (lidar_callback V s raw) = Some ValueError
      \<and> point_list (fst (lidar_callback V s raw)) = point_list s)
   \<and> (length (memory s raw) mod 24 \<noteq> 0 \<longrightarrow>
      semantic_lidar_callback s raw = (s, Some ValueError))"
  by (simp add: lidar_callback_bad_length semantic_lidar_callback_bad_length)

text \<open>The theorem on a payload of 20 bytes.\<close>

theorem malformed_length_raises_witness:
  "length (memory (pipeline_with (raw_payload [0, 0, 0x80, 0x3F] @ [0, 0, 0, 0]) Map.empty) 0) mod 16 \<noteq> 0
   \<and> length (memory (pipeline_with (raw_payload [0, 0, 0x80, 0x3F] @ [0, 0, 0, 0]) Map.empty) 0) mod 24 \<noteq> 0
   \<and> snd (lidar_callback [(0, 0, 0), (1, 1, 1)]
        (pipeline_with (raw_payload [0, 0, 0x80, 0x3F] @ [0, 0, 0, 0]) Map.empty) 0) = Some ValueError
   \<and> point_list (fst (lidar_callback [(0, 0, 0), (1, 1, 1)]
        (pipeline_with (raw_payload [0, 0, 0x80, 0x3F] @ [0, 0, 0, 0]) Map.empty) 0))
       = \<lparr>points = [], colors = []\<rparr>
   \<and> semantic_lidar_callback (pipeline_with (raw_payload [0, 0, 0x80, 0x3F] @ [0, 0, 0, 0]) Map.empty) 0
       = (pipeline_with (raw_payload [0, 0, 0x80, 0x3F] @ [0, 0, 0, 0]) Map.empty, Some ValueError)"
proof -
  let ?s = "pipeline_with (raw_payload [0, 0, 0x80, 0x3F] @ [0, 0, 0, 0]) Map.empty"
  have l: "length (memory ?s 0) = 20" by (simp add: length_raw_payload)
  have p: "point_list ?s = \<lparr>points = [], colors = []\<rparr>" by (simp add: pipeline_with_def)
  show ?thesis
    using malformed_length_raises [of ?s 0 "[(0, 0, 0), (1, 1, 1)]"]
    by (simp add: l p length_raw_payload)
qed

text \<open>
  Claim C10. Neither callback changes the payload it is given. The intensity callback
  writes its negated column to the copy made by \<^verbatim>\<open>np.copy\<close>, at a fresh address; the
  semantic callback writes to no buffer at all.
\<close>

theorem payload_not_modified:
  "raw < free_addr s \<Longrightarrow>
   memory (fst (lidar_callback V s raw)) raw = memory s raw
   \<and> memory (fst (semantic_lidar_callback s raw)) = memory s
   \<and> (length (memory s raw) mod 16 = 0 \<and> V \<noteq> [] \<longrightarrow>
        memory (fst (lidar_callback V s raw)) (free_addr s) =
          negate_first_column (memory s raw) (length (memory s raw) div 16))"
proof -
  assume r: "raw < free_addr s"
  have ok: "memory (fst (lidar_callback V s raw)) (free_addr s) =
              negate_first_column (memory s raw) (length (memory s raw) div 16)"
    if "length (memory s raw) mod 16 = 0" "V \<noteq> []"
  proof -
    from that(1) have len: "length (memory s raw) = 16 * (length (memory s raw) div 16)"
      by presburger
    show ?thesis unfolding lidar_callback_ok [OF len that(2)] by simp
  qed
  from r have "raw \<noteq> free_addr s" by simp
  then show ?thesis
    using ok by (simp add: lidar_callback_frame semantic_lidar_callback_frame)
qed

text \<open>The theorem on a payload of one sample, at address 0; the copy is at address 1.\<close>

theorem payload_not_modified_witness:
  "(0::nat) < free_addr (pipeline_with (raw_payload [0, 0, 0x80, 0x3F]) Map.empty)
   \<and> memory (fst (lidar_callback [(0, 0, 0), (1, 1, 1)]
        (pipeline_with (raw_payload [0, 0, 0x80, 0x3F]) Map.empty) 0)) 0
       = raw_payload [0, 0, 0x80, 0x3F]
   \<and> memory (fst (semantic_lidar_callback
        (pipeline_with (raw_payload [0, 0, 0x80, 0x3F]) Map.empty) 0)) 0
       = raw_payload [0, 0, 0x80, 0x3F]
   \<and> memory (fst (lidar_callback [(0, 0, 0), (1, 1, 1)]
        (pipeline_with (raw_payload [0, 0, 0x80, 0x3F]) Map.empty) 0)) 1
       = negate_first_column (raw_payload [0, 0, 0x80, 0x3F]) 1"
proof -
  let ?s = "pipeline_with (raw_payload [0, 0, 0x80, 0x3F]) Map.empty"
  have h: "(0::nat) < free_addr ?s" by (simp add: pipeline_with_def)
  have f: "free_addr ?s = 1" by (simp add: pipeline_with_def)
  show ?thesis
    using h payload_not_modified [OF h, of "[(0, 0, 0), (1, 1, 1)]"]
    by (simp add: f length_raw_payload)
qed

subsection \<open>Frame loop\<close>

lemma frame_loop_body [simp]: "frame (loop_body r n s) = frame s + 1"
  by (simp add: loop_body_def Let_def)

lemma run_frames_snoc:
  "run_frames r (ns @ [n]) s = loop_body r n (run_frames r ns s)"
  by (simp add: run_frames_def)

lemma frame_run_frames: "frame (run_frames r ns s) = frame s + length ns"
  by (induction ns rule: rev_induct) (simp_all add: run_frames_def)

lemma geometry_events_loop_body:
  "geometry_events (trace (loop_body r n s)) = geometry_events (trace s) @ render_events (frame s)"
  by (simp add: loop_body_def Let_def geometry_events_def render_events_def)

text \<open>
  Claim C4. With recording enabled, an iteration writes a snapshot, after the geometry
  update of that iteration, exactly when \<^verbatim>\<open>previous_num_points\<close> is \<^verbatim>\<open>None\<close> or the new
  point count differs from it by more than 100 in absolute value; the reference count
  becomes the new count when a snapshot is written and is left as it was otherwise.
\<close>

theorem recording_threshold:
  "trace (loop_body True n s) =
     trace s @ render_events (frame s)
       @ (if previous_num_points s = None
             \<or> (\<exists>p. previous_num_points s = Some p \<and> \<bar>int n - p\<bar> > 100)
          then [write_point_cloud (frame s)] else [])
       @ [poll_events, update_renderer, tick]
   \<and> previous_num_points (loop_body True n s) =
       (if previous_num_points s = None
           \<or> (\<exists>p. previous_num_points s = Some p \<and> \<bar>int n - p\<bar> > 100)
        then Some (int n) else previous_num_points s)"
  by (cases "previous_num_points s")
     (simp_all add: loop_body_def Let_def should_record_def POINT_DIFF_THRESHOLD_def)

text \<open>
  The theorem at the counts of the specification: from 1000 to 1050 nothing is written,
  from 1000 to 1200 a snapshot is written, and the first iteration always writes one.
\<close>

theorem recording_threshold_witness:
  "trace (loop_body True 1050 \<lparr>frame = 7, previous_num_points = Some 1000, trace = []\<rparr>)
     = [update_geometry, poll_events, update_renderer, tick]
   \<and> previous_num_points
       (loop_body True 1050 \<lparr>frame = 7, previous_num_points = Some 1000, trace = []\<rparr>)
     = Some 1000
   \<and> trace (loop_body True 1200 \<lparr>frame = 7, previous_num_points = Some 1000, trace = []\<rparr>)
     = [update_geometry, write_point_cloud 7, poll_events, update_renderer, tick]
   \<and> previous_num_points
       (loop_body True 1200 \<lparr>frame = 7, previous_num_points = Some 1000, trace = []\<rparr>)
     = Some 1200
   \<and> trace (loop_body True 0 loop_init)
     = [update_geometry, write_point_cloud 0, poll_events, update_renderer, tick]"
  using recording_threshold [of 1050 "\<lparr>frame = 7, previous_num_points = Some 1000, trace = []\<rparr>"]
        recording_threshold [of 1200 "\<lparr>frame = 7, previous_num_points = Some 1000, trace = []\<rparr>"]
        recording_threshold [of 0 loop_init]
  by (simp add: render_events_def loop_init_def)

text \<open>
  Claim C9, as the code has it. The geometry is registered exactly once, in the iteration
  whose \<^verbatim>\<open>frame\<close> is 2 (the third one), just before that iteration's update. The two
  iterations before it update the geometry without any registration, and every later
  iteration only updates it.
\<close>

theorem register_once_at_frame_two:
  "geometry_events (trace (run_frames r ns loop_init)) =
     (if length ns \<le> 2 then replicate (length ns) update_geometry
      else [update_geometry, update_geometry, add_geometry]
           @ replicate (length ns - 2) update_geometry)"
proof (induction ns rule: rev_induct)
  case Nil
  show ?case by (simp add: run_frames_def loop_init_def geometry_events_def)
next
  case (snoc n ns)
  have fr: "frame (run_frames r ns loop_init) = length ns"
    by (simp add: frame_run_frames loop_init_def)
  have step: "geometry_events (trace (run_frames r (ns @ [n]) loop_init)) =
      (if length ns \<le> 2 then replicate (length ns) update_geometry
       else [update_geometry, update_geometry, add_geometry]
            @ replicate (length ns - 2) update_geometry)
      @ render_events (length ns)"
    by (simp only: run_frames_snoc geometry_events_loop_body snoc.IH fr)
  show ?case
  proof (cases "length ns \<le> 2")
    case True
    then consider "length ns = 0" | "length ns = 1" | "length ns = 2" by linarith
    then show ?thesis
      by cases (simp_all add: step render_events_def numeral_2_eq_2 del: length_0_conv)
  next
    case False
    then have "Suc (length ns - 2) = length ns - 1" by simp
    then have "replicate (length ns - 1) update_geometry
                 = replicate (length ns - 2) update_geometry @ [update_geometry]"
      by (metis replicate_Suc replicate_append_same)
    with False show ?thesis
      by (simp add: step render_events_def)
  qed
qed

theorem register_once_at_frame_two_witness:
  "geometry_events (trace (run_frames True [0, 10, 20, 30] loop_init)) =
     [update_geometry, update_geometry, add_geometry, update_geometry, update_geometry]"
  using register_once_at_frame_two [of True "[0, 10, 20, 30]"]
  by (simp add: numeral_2_eq_2)

text \<open>
  Claim C9 as stated asks for a registration before the update in each of the first two
  iterations. The first two iterations make no registration at all.
\<close>

theorem register_first_two_frames_counterexample:
  "add_geometry \<notin> set (trace (run_frames False [0, 0] loop_init))
   \<and> geometry_events (trace (run_frames False [0, 0] loop_init))
       = [update_geometry, update_geometry]"
  by (simp add: run_frames_def loop_body_def Let_def loop_init_def render_events_def
        should_record_def geometry_events_def)

end
